theory Spec2Isabelle
  imports Main "HOL-Library.Word"
begin

section \<open>Errors\<close>

text \<open>
  Go's \<open>error\<close> values as they occur in \<open>runtime/service.go\<close> and in the devmapper
  snapshotter: a system call's \<open>unix.Errno\<close>, an error made by \<open>errors.New\<close> or
  \<open>errors.Errorf\<close> (it carries only its message), \<open>errors.Wrap\<close> around another
  error, the error of a cancelled context, and a \<open>multierror.Error\<close> holding several
  errors; \<open>Errdefs\<close> is the sentinel error of a kind of containerd's \<open>errdefs\<close>.
  A Go function returning \<open>(T, error)\<close> is modelled as a pair whose second
  component is \<open>None\<close> for the \<open>nil\<close> error.
\<close>

datatype errkind = NotFound | AlreadyExists | InvalidArgument

datatype error =
    Errno nat
  | ErrorsNew string
  | Wrap error string
  | ContextErr
  | Errdefs errkind
  | MultiError "error list"

section \<open>Shim: dialling the agent over vsock\<close>

text \<open>
  \<open>time.Duration\<close> is an \<open>int64\<close> counting nanoseconds. The connection returned by
  \<open>vsock.Dial\<close> is opaque; what an attempt returns is given by a function of the
  attempt number (the loop variable \<open>i\<close>, starting at 1).
\<close>

type_synonym Duration = "64 word"
type_synonym conn = nat

definition Millisecond :: Duration where
  "Millisecond = 1000000"

definition retryCount :: nat where
  "retryCount = 5"

definition initialDelay :: Duration where
  "initialDelay = 100 * Millisecond"

definition delayMultiplier :: Duration where
  "delayMultiplier = 2"

datatype dial_event = Dial nat | Sleep Duration

function dialVsock_loop ::
  "(nat \<Rightarrow> error + conn) \<Rightarrow> nat \<Rightarrow> error option \<Rightarrow> Duration \<Rightarrow> dial_event list
     \<Rightarrow> (conn option \<times> error option) \<times> dial_event list" where
  "dialVsock_loop dial i lastErr currentDelay tr =
     (if i \<le> retryCount then
        (case dial i of
           Inr c \<Rightarrow> ((Some c, None), tr @ [Dial i])
         | Inl err \<Rightarrow>
             dialVsock_loop dial (i + 1) (Some err) (currentDelay * delayMultiplier)
               (tr @ [Dial i, Sleep currentDelay]))
      else ((None, lastErr), tr))"
  by pat_completeness auto
termination
  by (relation "measure (\<lambda>(dial, i, lastErr, currentDelay, tr). Suc retryCount - i)") auto

definition dialVsock :: "(nat \<Rightarrow> error + conn) \<Rightarrow> (conn option \<times> error option) \<times> dial_event list" where
  "dialVsock dial = dialVsock_loop dial 1 None initialDelay []"

text \<open>The trace of a dial in which every attempt fails: five attempts, each followed by
  its sleep, the durations in nanoseconds.\<close>

definition backoff_trace :: "dial_event list" where
  "backoff_trace =
     [Dial 1, Sleep 100000000, Dial 2, Sleep 200000000, Dial 3, Sleep 400000000,
      Dial 4, Sleep 800000000, Dial 5, Sleep 1600000000]"

fun is_Dial :: "dial_event \<Rightarrow> bool" where
  "is_Dial (Dial i) = True"
| "is_Dial (Sleep d) = False"

section \<open>Shim: the vsock context id allocator\<close>

text \<open>
  \<open>findNextAvailableVsockCID\<close> opens \<open>/dev/vhost-vsock\<close> and scans context ids with
  the \<open>VHOST_VSOCK_SET_GUEST_CID\<close> ioctl. The loop variable \<open>contextID\<close> is a Go
  \<open>int\<close> (64 bits where the constant \<open>math.MaxUint32\<close> fits an \<open>int\<close> at all), so
  it is an \<open>int\<close> here and never wraps below \<open>maxCID\<close>; the value returned is
  \<open>uint32(contextID)\<close>. The outcome of opening the device, whether the context is done
  when the scan reaches a context id, and the \<open>Errno\<close> the ioctl returns for a context
  id are parameters. The function also returns the context ids on which the ioctl was
  issued, in order.
\<close>

definition startCID :: int where
  "startCID = 3"

definition maxCID :: int where
  "maxCID = 4294967295"

definition EADDRINUSE :: nat where
  "EADDRINUSE = 98"

function scanCID ::
  "(int \<Rightarrow> bool) \<Rightarrow> (int \<Rightarrow> nat) \<Rightarrow> int \<Rightarrow> int list \<Rightarrow> (32 word \<times> error option) \<times> int list" where
  "scanCID ctxDone ioctl contextID tried =
     (if contextID < maxCID then
        (if ctxDone contextID then ((0, Some ContextErr), tried)
         else
           (let err = ioctl contextID in
            if err = 0 then ((word_of_int contextID, None), tried @ [contextID])
            else if err = EADDRINUSE then scanCID ctxDone ioctl (contextID + 1) (tried @ [contextID])
            else ((0, Some (Errno err)), tried @ [contextID])))
      else ((0, Some (ErrorsNew ''couldn't find any available vsock context id'')), tried))"
  by pat_completeness auto
termination
  by (relation "measure (\<lambda>(ctxDone, ioctl, contextID, tried). nat (maxCID - contextID))") auto

definition findNextAvailableVsockCID ::
  "error option \<Rightarrow> (int \<Rightarrow> bool) \<Rightarrow> (int \<Rightarrow> nat) \<Rightarrow> (32 word \<times> error option) \<times> int list" where
  "findNextAvailableVsockCID openFile ctxDone ioctl =
     (case openFile of
        Some err \<Rightarrow> ((0, Some (Wrap err ''failed to open vsock device'')), [])
      | None \<Rightarrow> scanCID ctxDone ioctl startCID [])"

text \<open>Concrete environments of the allocator: a context that is never cancelled, and a
  vsock device on which every context id but one is already taken.\<close>

definition ctx_never_done :: "int \<Rightarrow> bool" where
  "ctx_never_done c = False"

definition ioctl_free_only_at :: "int \<Rightarrow> int \<Rightarrow> nat" where
  "ioctl_free_only_at m c = (if c = m then 0 else EADDRINUSE)"

section \<open>Snapshotter: data\<close>

text \<open>
  The devmapper snapshotter exists in two versions under \<open>src/\<close>: the type
  \<open>Snapshotter\<close> (\<open>src/unnamed/part_000\<close>), whose operations run inside
  \<open>withTransaction\<close>, and the older type \<open>devmapper\<close>
  (\<open>src/snapshotter/devmapper/devmapper.go\<close>), whose operations open the transaction
  themselves and finish it with \<open>complete\<close>. Both are modelled; the older one's
  operations carry the prefix \<open>devmapper_\<close>.

  \<open>snapshots.Kind\<close>, \<open>storage.Snapshot\<close> and \<open>mount.Mount\<close> are containerd's types;
  a Go struct's zero value has \<open>KindUnknown\<close>, empty strings and \<open>nil\<close> slices.
\<close>

datatype Kind = KindUnknown | KindView | KindActive | KindCommitted

record Snapshot =
  Kind :: Kind
  ID :: string
  ParentIDs :: "string list"

definition Snapshot_zero :: Snapshot where
  "Snapshot_zero = \<lparr>Kind = KindUnknown, ID = [], ParentIDs = []\<rparr>"

record Mount =
  Type :: string
  Source :: string
  Options :: "string list"

record Config =
  RootPath :: string
  PoolName :: string
  BaseImageSizeBytes :: nat

definition fsTypeExt4 :: string where
  "fsTypeExt4 = ''ext4''"

datatype closeFunc = store_Close | poolDevice_Close

text \<open>The calls the snapshotter makes on its collaborators, in the order it makes them.\<close>

datatype dm_event =
    TransactionContext bool
  | Commit
  | Rollback
  | storage_GetSnapshot_call string
  | storage_CreateSnapshot_call Kind string string
  | storage_Remove_call string
  | CreateThinDevice string nat
  | CreateSnapshotDevice string string nat
  | mkfs_ext4 string
  | WithTempMount_remove_lost_found "Mount list"
  | RemoveDevice string "bool option"
  | Closed closeFunc

text \<open>
  What the collaborators answer is a parameter of every operation: the error (or
  \<open>None\<close> for \<open>nil\<close>) of opening, committing and rolling back a transaction, of each
  thin-pool call and of \<open>mkfs.ext4\<close>, of the two close functions, and the identifier the
  MetaStore gives the next record it creates.
\<close>

record dm_env =
  TransactionContext_err :: "bool \<Rightarrow> error option"
  Commit_err :: "error option"
  Rollback_err :: "error option"
  CreateThinDevice_err :: "string \<Rightarrow> error option"
  CreateSnapshotDevice_err :: "string \<Rightarrow> string \<Rightarrow> error option"
  mkfs_err :: "string \<Rightarrow> error option"
  RemoveDevice_err :: "string \<Rightarrow> error option"
  Close_err :: "closeFunc \<Rightarrow> error option"
  next_ID :: string

text \<open>
  The snapshotter with the state it owns: its configuration, the cleanup functions and the
  \<open>sync.Once\<close> of \<open>Close\<close> (whether it has fired), the records of the MetaStore as the
  current transaction sees them, and the calls made so far.
\<close>

record Snapshotter =
  config :: Config
  cleanupFn :: "closeFunc list"
  closeOnce :: bool
  store :: "string \<rightharpoonup> Snapshot"
  calls :: "dm_event list"

definition call :: "dm_event \<Rightarrow> Snapshotter \<Rightarrow> Snapshotter" where
  "call ev dm = dm\<lparr>calls := calls dm @ [ev]\<rparr>"

section \<open>Snapshotter: the MetaStore and the device path\<close>

text \<open>
  Modelled from the spec: \<open>dmsetup.GetFullDevicePath\<close> (and \<open>PoolDevice.GetDevicePath\<close>
  of the older version) is not under \<open>src/\<close>. The spec: \<open>GetDevicePath(name)\<close> returns
  \<open>/dev/mapper/<name>\<close>.
\<close>

definition GetFullDevicePath :: "string \<Rightarrow> string" where
  "GetFullDevicePath name = ''/dev/mapper/'' @ name"

text \<open>
  Modelled from the spec: containerd's \<open>storage\<close> package (the MetaStore) is not under
  \<open>src/\<close>. The spec: \<open>GetSnapshot\<close> fetches the snapshot record; \<open>CreateSnapshot\<close>
  creates a record of the requested kind whose parent chain is the ordered list of its
  ancestors' identifiers; \<open>Remove(key)\<close> deletes the record and returns its snapshot id;
  a writable transaction keeps its changes on commit and discards them on rollback. A
  failing lookup returns the zero \<open>Snapshot\<close> beside its error.
\<close>

definition storage_GetSnapshot :: "string \<Rightarrow> Snapshotter \<Rightarrow> (Snapshot \<times> error option) \<times> Snapshotter" where
  "storage_GetSnapshot key dm =
     (let dm1 = call (storage_GetSnapshot_call key) dm in
      case store dm key of
        None \<Rightarrow> ((Snapshot_zero, Some (Errdefs NotFound)), dm1)
      | Some snap \<Rightarrow> ((snap, None), dm1))"

definition storage_CreateSnapshot ::
  "dm_env \<Rightarrow> Kind \<Rightarrow> string \<Rightarrow> string \<Rightarrow> Snapshotter \<Rightarrow> (Snapshot \<times> error option) \<times> Snapshotter" where
  "storage_CreateSnapshot env kind key parent dm =
     (let dm1 = call (storage_CreateSnapshot_call kind key parent) dm in
      if store dm key \<noteq> None then ((Snapshot_zero, Some (Errdefs AlreadyExists)), dm1)
      else if parent = [] then
        (let snap = \<lparr>Kind = kind, ID = next_ID env, ParentIDs = []\<rparr>
         in ((snap, None), dm1\<lparr>store := (store dm1)(key \<mapsto> snap)\<rparr>))
      else
        (case store dm parent of
           None \<Rightarrow> ((Snapshot_zero, Some (Errdefs NotFound)), dm1)
         | Some p \<Rightarrow>
             (let snap = \<lparr>Kind = kind, ID = next_ID env, ParentIDs = ID p # ParentIDs p\<rparr>
              in ((snap, None), dm1\<lparr>store := (store dm1)(key \<mapsto> snap)\<rparr>))))"

definition storage_Remove :: "string \<Rightarrow> Snapshotter \<Rightarrow> (string \<times> error option) \<times> Snapshotter" where
  "storage_Remove key dm =
     (let dm1 = call (storage_Remove_call key) dm in
      case store dm key of
        None \<Rightarrow> (([], Some (Errdefs NotFound)), dm1)
      | Some snap \<Rightarrow> ((ID snap, None), dm1\<lparr>store := (store dm1)(key := None)\<rparr>))"

definition trans_Rollback :: "dm_env \<Rightarrow> (string \<rightharpoonup> Snapshot) \<Rightarrow> Snapshotter \<Rightarrow> error option \<times> Snapshotter" where
  "trans_Rollback env before dm = (Rollback_err env, (call Rollback dm)\<lparr>store := before\<rparr>)"

definition trans_Commit :: "dm_env \<Rightarrow> (string \<rightharpoonup> Snapshot) \<Rightarrow> Snapshotter \<Rightarrow> error option \<times> Snapshotter" where
  "trans_Commit env before dm =
     (case Commit_err env of
        None \<Rightarrow> (None, call Commit dm)
      | Some terr \<Rightarrow> (Some terr, (call Commit dm)\<lparr>store := before\<rparr>))"

text \<open>\<open>multierror\<close>: \<open>Append\<close> collects errors in a list, \<open>ErrorOrNil\<close> is \<open>nil\<close> for
  none.\<close>

definition ErrorOrNil :: "error list \<Rightarrow> error option" where
  "ErrorOrNil result = (if result = [] then None else Some (MultiError result))"

definition Append_err :: "error list \<Rightarrow> error option \<Rightarrow> error list" where
  "Append_err result err = (case err of None \<Rightarrow> result | Some e \<Rightarrow> result @ [e])"

section \<open>Snapshotter: operations of \<open>Snapshotter\<close> (part 000)\<close>

text \<open>Log calls are left out; every other step of the source is a step here.\<close>

definition getDeviceName :: "Snapshotter \<Rightarrow> string \<Rightarrow> string" where
  "getDeviceName dm snapID = PoolName (config dm) @ ''-snap-'' @ snapID"

definition getDevicePath :: "Snapshotter \<Rightarrow> Snapshot \<Rightarrow> string" where
  "getDevicePath dm snap = (let name = getDeviceName dm (ID snap) in GetFullDevicePath name)"

definition buildMounts :: "Snapshotter \<Rightarrow> Snapshot \<Rightarrow> Mount list" where
  "buildMounts dm snap =
     (let options = (if Kind snap \<noteq> KindActive then [] @ [''ro''] else []);
          mounts = [\<lparr>Type = fsTypeExt4, Source = getDevicePath dm snap, Options = options\<rparr>]
      in mounts)"

definition Wrap_opt :: "error option \<Rightarrow> string \<Rightarrow> error option" where
  "Wrap_opt terr msg = (case terr of None \<Rightarrow> None | Some e \<Rightarrow> Some (Wrap e msg))"

text \<open>
  \<open>withTransaction\<close>: the callback \<open>fn\<close> assigns to variables of its caller; \<open>r0\<close> is
  their value before the call and the first component of the result their value after
  it. The second component is the error \<open>withTransaction\<close> returns.
\<close>

definition withTransaction ::
  "dm_env \<Rightarrow> bool \<Rightarrow> 'r \<Rightarrow> (Snapshotter \<Rightarrow> ('r \<times> error option) \<times> Snapshotter) \<Rightarrow> Snapshotter
     \<Rightarrow> ('r \<times> error option) \<times> Snapshotter" where
  "withTransaction env writable r0 fn dm =
     (let before = store dm; dm0 = call (TransactionContext writable) dm in
      case TransactionContext_err env writable of
        Some err \<Rightarrow> ((r0, Some err), dm0)
      | None \<Rightarrow>
          (let ((r, err), dm1) = fn dm0;
               result = Append_err [] err;
               (result2, dm2) =
                 (if err \<noteq> None \<or> \<not> writable then
                    (let (terr, d) = trans_Rollback env before dm1
                     in (Append_err result (Wrap_opt terr ''rollback failed''), d))
                  else
                    (let (terr, d) = trans_Commit env before dm1
                     in (Append_err result (Wrap_opt terr ''commit failed''), d)))
           in case ErrorOrNil result2 of
                Some merr \<Rightarrow>
                  (if length result2 = 1 then ((r, Some (result2 ! 0)), dm2)
                   else ((r, Some merr), dm2))
              | None \<Rightarrow> ((r, None), dm2)))"

definition Mounts :: "dm_env \<Rightarrow> string \<Rightarrow> Snapshotter \<Rightarrow> (Mount list \<times> error option) \<times> Snapshotter" where
  "Mounts env key dm =
     (let ((snap, err), dm1) = withTransaction env False Snapshot_zero (storage_GetSnapshot key) dm
      in ((buildMounts dm snap, None), dm1))"

definition mkfs :: "dm_env \<Rightarrow> string \<Rightarrow> Snapshotter \<Rightarrow> error option \<times> Snapshotter" where
  "mkfs env deviceName dm =
     (mkfs_err env deviceName, call (mkfs_ext4 (GetFullDevicePath deviceName)) dm)"

definition createSnapshot ::
  "dm_env \<Rightarrow> Kind \<Rightarrow> string \<Rightarrow> string \<Rightarrow> Snapshotter \<Rightarrow> (Mount list \<times> error option) \<times> Snapshotter" where
  "createSnapshot env kind key parent dm =
     (let ((snap, err), dm1) = storage_CreateSnapshot env kind key parent dm in
      case err of
        Some e \<Rightarrow> (([], Some e), dm1)
      | None \<Rightarrow>
          (let (err2, dm2) =
             (if length (ParentIDs snap) = 0 then
                (let deviceName = getDeviceName dm (ID snap);
                     d = call (CreateThinDevice deviceName (BaseImageSizeBytes (config dm))) dm1
                 in case CreateThinDevice_err env deviceName of
                      Some e \<Rightarrow> (Some e, d)
                    | None \<Rightarrow> mkfs env deviceName d)
              else
                (let parentDeviceName = getDeviceName dm (ParentIDs snap ! 0);
                     snapDeviceName = getDeviceName dm (ID snap);
                     d = call (CreateSnapshotDevice parentDeviceName snapDeviceName
                                 (BaseImageSizeBytes (config dm))) dm1
                 in (CreateSnapshotDevice_err env parentDeviceName snapDeviceName, d)))
           in case err2 of
                Some e \<Rightarrow> (([], Some e), dm2)
              | None \<Rightarrow>
                  (let mounts = buildMounts dm snap
                   in ((mounts, None), call (WithTempMount_remove_lost_found mounts) dm2))))"

definition Prepare ::
  "dm_env \<Rightarrow> string \<Rightarrow> string \<Rightarrow> Snapshotter \<Rightarrow> (Mount list \<times> error option) \<times> Snapshotter" where
  "Prepare env key parent dm =
     withTransaction env True [] (createSnapshot env KindActive key parent) dm"

definition View ::
  "dm_env \<Rightarrow> string \<Rightarrow> string \<Rightarrow> Snapshotter \<Rightarrow> (Mount list \<times> error option) \<times> Snapshotter" where
  "View env key parent dm =
     withTransaction env True [] (createSnapshot env KindView key parent) dm"

definition removeDevice :: "dm_env \<Rightarrow> string \<Rightarrow> Snapshotter \<Rightarrow> error option \<times> Snapshotter" where
  "removeDevice env key dm =
     (let ((snapID, err), dm1) = storage_Remove key dm in
      case err of
        Some e \<Rightarrow> (Some e, dm1)
      | None \<Rightarrow>
          (let deviceName = getDeviceName dm snapID;
               dm2 = call (RemoveDevice deviceName (Some True)) dm1
           in case RemoveDevice_err env deviceName of
                Some e \<Rightarrow> (Some e, dm2)
              | None \<Rightarrow> (None, dm2)))"

definition Remove :: "dm_env \<Rightarrow> string \<Rightarrow> Snapshotter \<Rightarrow> error option \<times> Snapshotter" where
  "Remove env key dm =
     (let ((u, err), dm1) =
            withTransaction env True ()
              (\<lambda>d. let (e, d') = removeDevice env key d in (((), e), d')) dm
      in (err, dm1))"

fun run_cleanupFn :: "dm_env \<Rightarrow> closeFunc list \<Rightarrow> error list \<Rightarrow> Snapshotter \<Rightarrow> error list \<times> Snapshotter" where
  "run_cleanupFn env [] result dm = (result, dm)"
| "run_cleanupFn env (fn # fns) result dm =
     run_cleanupFn env fns (Append_err result (Close_err env fn)) (call (Closed fn) dm)"

definition Close :: "dm_env \<Rightarrow> Snapshotter \<Rightarrow> error option \<times> Snapshotter" where
  "Close env dm =
     (let (result, dm1) =
            (if closeOnce dm then ([], dm)
             else run_cleanupFn env (cleanupFn dm) [] (dm\<lparr>closeOnce := True\<rparr>))
      in (ErrorOrNil result, dm1))"

text \<open>The \<open>Snapshotter\<close> that \<open>NewSnapshotter\<close> returns when none of its steps fails,
  over a MetaStore holding the given records.\<close>

definition NewSnapshotter :: "Config \<Rightarrow> (string \<rightharpoonup> Snapshot) \<Rightarrow> Snapshotter" where
  "NewSnapshotter cfg records =
     \<lparr>config = cfg, cleanupFn = ([] @ [store_Close]) @ [poolDevice_Close], closeOnce = False,
      store = records, calls = []\<rparr>"

section \<open>Snapshotter: operations of the older \<open>devmapper\<close> (devmapper.go)\<close>


definition devmapper_Mounts ::
  "dm_env \<Rightarrow> string \<Rightarrow> Snapshotter \<Rightarrow> (Mount list \<times> error option) \<times> Snapshotter" where
  "devmapper_Mounts env key dm =
     (let before = store dm; dm0 = call (TransactionContext False) dm in
      case TransactionContext_err env False of
        Some err \<Rightarrow> (([], Some err), dm0)
      | None \<Rightarrow>
          (let ((snap, err), dm1) = storage_GetSnapshot key dm0;
               dm2 = snd (trans_Rollback env before dm1)
           in case err of
                Some e \<Rightarrow> (([], Some e), dm2)
              | None \<Rightarrow> ((buildMounts dm snap, None), dm2)))"


definition devmapper_Close :: "dm_env \<Rightarrow> Snapshotter \<Rightarrow> error option \<times> Snapshotter" where
  "devmapper_Close env dm =
     (let result = Append_err [] (Close_err env store_Close);
          dm1 = call (Closed store_Close) dm;
          result2 = Append_err result (Close_err env poolDevice_Close);
          dm2 = call (Closed poolDevice_Close) dm1
      in (ErrorOrNil result2, dm2))"

text \<open>A concrete setting for the snapshotter: pool \<open>p0\<close>, collaborators that never
  fail, and collaborators of which exactly one call fails.\<close>

definition cfg_p0 :: Config where
  "cfg_p0 = \<lparr>RootPath = ''/var/lib/devmapper'', PoolName = ''p0'', BaseImageSizeBytes = 1073741824\<rparr>"

definition env_ok :: dm_env where
  "env_ok =
     \<lparr>TransactionContext_err = (\<lambda>writable. None), Commit_err = None, Rollback_err = None,
      CreateThinDevice_err = (\<lambda>name. None), CreateSnapshotDevice_err = (\<lambda>parent name. None),
      mkfs_err = (\<lambda>name. None), RemoveDevice_err = (\<lambda>name. None),
      Close_err = (\<lambda>fn. None), next_ID = ''1''\<rparr>"

definition env_no_transaction :: dm_env where
  "env_no_transaction = env_ok\<lparr>TransactionContext_err := (\<lambda>writable. Some (Errno 5))\<rparr>"


definition env_store_close_fails :: dm_env where
  "env_store_close_fails =
     env_ok\<lparr>Close_err := (\<lambda>fn. if fn = store_Close then Some (Errno 5) else None)\<rparr>"

definition snap_a :: Snapshot where
  "snap_a = \<lparr>Kind = KindActive, ID = ''4'', ParentIDs = []\<rparr>"

section \<open>Shim: the service and its collaborators\<close>

text \<open>
  The shim's \<open>service\<close> of \<open>runtime/service.go\<close>. Its fields that the modelled
  operations read or write are kept (the field \<open>id\<close> as \<open>service_id\<close>); the per-task
  context \<open>s.ctx\<close> with its \<open>s.cancel\<close> is the flag \<open>ctx_cancelled\<close>. The calls the
  shim makes on the hypervisor driver, the agent, the event publisher, the ttrpc server
  and the operating system are appended to \<open>trace\<close> in the order they are made, the
  messages it logs at warning and error level to \<open>logs\<close>. \<open>Kill\<close>, \<open>Shutdown\<close> and
  \<open>monitorState\<close> are modelled on a service whose \<open>Create\<close> has succeeded, so that
  \<open>agentClient\<close>, \<open>machine\<close> and \<open>cancel\<close> are set.
\<close>

definition defaultVsockPort :: nat where
  "defaultVsockPort = 10789"

definition supportedMountFSType :: string where
  "supportedMountFSType = ''ext4''"

record shim_Config =
  SocketPath :: string
  KernelImagePath :: string
  KernelArgs :: string
  RootDrive :: string
  CPUCount :: nat
  CPUTemplate :: string
  FirecrackerBinaryPath :: string
  Debug :: bool

record Drive =
  DriveID :: string
  PathOnHost :: string
  IsRootDevice :: bool
  IsReadOnly :: bool

record CreateTaskRequest =
  request_ID :: string
  Bundle :: string
  Rootfs :: "Mount list"
  Stdin :: string
  Stdout :: string
  Stderr :: string

datatype Status =
  StatusUnknown | StatusCreated | StatusRunning | StatusStopped | StatusPaused | StatusPausing

record StateResponse =
  Status :: Status
  ExitStatus :: "32 word"

datatype TaskExit =
  TaskExit (ContainerID: string) (TaskExit_ID: string) (Pid: "32 word")
    (TaskExit_ExitStatus: "32 word") (ExitedAt: nat)

datatype effect =
    SetGuestCID int
  | NewMachine "32 word" "Drive list"
  | MachineStart
  | StopVMM
  | VmmCancel
  | VsockDial "32 word" nat dial_event
  | NewClient "conn option"
  | AgentCreate string
  | AgentKill
  | AgentShutdown string
  | AgentState string string
  | PublishTaskExit TaskExit
  | ProxyStdio string string string "32 word"
  | WithCancel
  | CancelCtx
  | ServerClose
  | OsExit nat

datatype log_entry = Warn string error | Error string error

record service =
  service_id :: string
  agentStarted :: bool
  agentClient :: "conn option"
  shim_config :: shim_Config
  machine :: bool
  machineCID :: "32 word"
  ctx_cancelled :: bool
  exited :: bool
  trace :: "effect list"
  logs :: "log_entry list"

text \<open>
  What the collaborators answer: the parameters of the context id allocator and of the
  vsock dial, the errors of the hypervisor driver's calls, of reading the bundle and of
  the agent's calls, and for the \<open>n\<close>-th turn of the state monitor's loop whether its
  \<open>select\<close> takes \<open>ctx.Done()\<close>, what the agent's \<open>State\<close> answers and what
  \<open>time.Now()\<close> is.
\<close>

record shim_env =
  openFile_err :: "error option"
  cid_ctxDone :: "int \<Rightarrow> bool"
  cid_ioctl :: "int \<Rightarrow> nat"
  NewMachine_err :: "error option"
  machine_Start_err :: "error option"
  vsock_Dial :: "nat \<Rightarrow> error + conn"
  StopVMM_err :: "error option"
  packBundle_err :: "error option"
  agent_Create :: "error + 32 word"
  agent_Kill_err :: "error option"
  agent_Shutdown_err :: "error option"
  select_ctx_Done :: "nat \<Rightarrow> bool"
  agent_State :: "nat \<Rightarrow> error + StateResponse"
  time_Now :: "nat \<Rightarrow> nat"

definition do :: "effect \<Rightarrow> service \<Rightarrow> service" where
  "do e s = s\<lparr>trace := trace s @ [e]\<rparr>"

definition do_all :: "effect list \<Rightarrow> service \<Rightarrow> service" where
  "do_all es s = s\<lparr>trace := trace s @ es\<rparr>"

definition log_Error :: "string \<Rightarrow> error \<Rightarrow> service \<Rightarrow> service" where
  "log_Error msg err s = s\<lparr>logs := logs s @ [Error msg err]\<rparr>"

section \<open>Shim: starting and stopping the VM\<close>

text \<open>\<open>strconv.Itoa\<close> on the drive indices, which are never negative.\<close>

definition digit_char :: "nat \<Rightarrow> char" where
  "digit_char d = ''0123456789'' ! d"

function Itoa :: "nat \<Rightarrow> string" where
  "Itoa n = (if n < 10 then [digit_char n] else Itoa (n div 10) @ [digit_char (n mod 10)])"
  by pat_completeness auto
termination
  by (relation "measure (\<lambda>n. n)") auto

definition quoted :: "string \<Rightarrow> string" where
  "quoted s = [CHR 0x27] @ s @ [CHR 0x27]"

text \<open>The loop over \<open>request.Rootfs\<close>: \<open>i\<close> is the index of the mount at the head of
  the list.\<close>

fun attach_Rootfs :: "Mount list \<Rightarrow> nat \<Rightarrow> Drive list \<Rightarrow> error + Drive list" where
  "attach_Rootfs [] i drives = Inr drives"
| "attach_Rootfs (mnt # rest) i drives =
     (if Type mnt \<noteq> supportedMountFSType then
        Inl (ErrorsNew (''unsupported mount type '' @ quoted (Type mnt) @ '', expected '' @
                        quoted supportedMountFSType))
      else
        attach_Rootfs rest (i + 1)
          (drives @ [\<lparr>DriveID = Itoa (i + 2), PathOnHost = Source mnt, IsRootDevice = False,
                      IsReadOnly = False\<rparr>]))"

definition stopVM :: "shim_env \<Rightarrow> service \<Rightarrow> error option \<times> service" where
  "stopVM env s = (StopVMM_err env, do StopVMM s)"

text \<open>\<open>startVM\<close>; the deferred \<open>vmmCancel\<close> runs on every return after the context
  \<open>vmmCtx\<close> has been made.\<close>

definition startVM ::
  "shim_env \<Rightarrow> CreateTaskRequest \<Rightarrow> service \<Rightarrow> (conn option \<times> error option) \<times> service" where
  "startVM env request s =
     (let ((cid, err), tried) =
            findNextAvailableVsockCID (openFile_err env) (cid_ctxDone env) (cid_ioctl env);
          s0 = do_all (map SetGuestCID tried) s
      in case err of
           Some e \<Rightarrow> ((None, Some e), s0)
         | None \<Rightarrow>
             (let drives = [] @ [\<lparr>DriveID = Itoa 1, PathOnHost = RootDrive (shim_config s),
                                   IsRootDevice = True, IsReadOnly = False\<rparr>]
              in case attach_Rootfs (Rootfs request) 0 drives of
                   Inl e \<Rightarrow> ((None, Some e), s0)
                 | Inr drives' \<Rightarrow>
                     (let s1 = (do (NewMachine cid drives') s0)\<lparr>machine := (NewMachine_err env = None)\<rparr>
                      in case NewMachine_err env of
                           Some e \<Rightarrow> ((None, Some e), do VmmCancel s1)
                         | None \<Rightarrow>
                             (let s2 = do MachineStart (s1\<lparr>machineCID := cid\<rparr>)
                              in case machine_Start_err env of
                                   Some e \<Rightarrow> ((None, Some e), do VmmCancel s2)
                                 | None \<Rightarrow>
                                     (let ((c, derr), dialled) = dialVsock (vsock_Dial env);
                                          s3 = do_all (map (VsockDial cid defaultVsockPort) dialled) s2
                                      in case derr of
                                           Some e \<Rightarrow>
                                             (let (serr, s4) = stopVM env s3
                                              in ((None, Some e), do VmmCancel s4))
                                         | None \<Rightarrow>
                                             ((c, None), do VmmCancel (do (NewClient c) s3)))))))"

section \<open>Shim: the task service\<close>

definition Create ::
  "shim_env \<Rightarrow> CreateTaskRequest \<Rightarrow> service \<Rightarrow> (32 word option \<times> error option) \<times> service" where
  "Create env request s =
     (let (verr, s1) =
            (if \<not> agentStarted s then
               (let ((client, err), s') = startVM env request s in
                case err of
                  Some e \<Rightarrow> (Some e, log_Error ''failed to start VM'' e s')
                | None \<Rightarrow> (None, s'\<lparr>agentClient := client, agentStarted := True\<rparr>))
             else (None, s))
      in case verr of
           Some e \<Rightarrow> ((None, Some e), s1)
         | None \<Rightarrow>
             (case packBundle_err env of
                Some e \<Rightarrow> ((None, Some e), s1)
              | None \<Rightarrow>
                  (let s2 = do (AgentCreate (request_ID request)) s1 in
                   case agent_Create env of
                     Inl e \<Rightarrow> ((None, Some e), log_Error ''create failed'' e s2)
                   | Inr pid \<Rightarrow>
                       (let s3 = (do WithCancel s2)\<lparr>ctx_cancelled := False\<rparr>;
                            s4 = do (ProxyStdio (Stdin request) (Stdout request) (Stderr request)
                                       (machineCID s3)) s3
                        in ((Some pid, None), s4)))))"

definition cancel :: "service \<Rightarrow> service" where
  "cancel s = (do CancelCtx s)\<lparr>ctx_cancelled := True\<rparr>"



text \<open>\<open>Shutdown\<close>: the deferred \<open>os.Exit(0)\<close> ends the shim's process when the last
  path returns.\<close>

definition Shutdown :: "shim_env \<Rightarrow> string \<Rightarrow> service \<Rightarrow> (unit option \<times> error option) \<times> service" where
  "Shutdown env reqID s =
     (let s1 = do (AgentShutdown reqID) s;
          s2 = (case agent_Shutdown_err env of
                  Some e \<Rightarrow> log_Error ''failed to shutdown agent'' e s1
                | None \<Rightarrow> s1);
          (err, s3) = stopVM env s2
      in case err of
           Some e \<Rightarrow> ((None, Some e), log_Error ''failed to stop VM'' e s3)
         | None \<Rightarrow>
             (let s4 = cancel s3
              in ((Some (), None), (do (OsExit 0) s4)\<lparr>exited := True\<rparr>)))"

text \<open>
  \<open>monitorState\<close> loops until its context is done or the task has stopped, so it need
  not return: the model takes the number of turns it may make and is \<open>None\<close> when they
  do not suffice. \<open>n\<close> counts the turns of the loop made so far; each turn is one firing
  of the \<open>select\<close>. After \<open>Shutdown\<close> has ended the process nothing more runs.
\<close>

fun monitorState ::
  "nat \<Rightarrow> shim_env \<Rightarrow> nat \<Rightarrow> string \<Rightarrow> string \<Rightarrow> 32 word \<Rightarrow> service \<Rightarrow> service option" where
  "monitorState 0 env n reqID execID pid s = None"
| "monitorState (Suc fuel) env n reqID execID pid s =
     (if select_ctx_Done env n then Some s
      else
        (let s1 = do (AgentState reqID execID) s in
         case agent_State env n of
           Inl err \<Rightarrow>
             monitorState fuel env (n + 1) reqID execID pid
               (log_Error ''error monitoring state'' err s1)
         | Inr resp \<Rightarrow>
             (if Status resp = StatusStopped then
                (let s2 = do (PublishTaskExit
                                (TaskExit (service_id s1) (service_id s1) pid (ExitStatus resp)
                                   (time_Now env n))) s1;
                     (r, s3) = Shutdown env reqID s2
                 in if exited s3 then Some s3 else Some (do ServerClose s3))
              else monitorState fuel env (n + 1) reqID execID pid s1)))"

fun is_PublishTaskExit :: "effect \<Rightarrow> bool" where
  "is_PublishTaskExit (PublishTaskExit ev) = True"
| "is_PublishTaskExit e = False"

text \<open>
  \<open>errdefs.IsInvalidArgument\<close> is containerd's test for the InvalidArgument kind: the
  cause of the error, below every \<open>errors.Wrap\<close>, is the sentinel error of that kind.
\<close>

fun Cause :: "error \<Rightarrow> error" where
  "Cause (Wrap e msg) = Cause e"
| "Cause e = e"

definition IsInvalidArgument :: "error \<Rightarrow> bool" where
  "IsInvalidArgument e = (Cause e = Errdefs InvalidArgument)"

text \<open>Concrete settings of the shim: a service before its first \<open>Create\<close> and after it,
  and collaborators that never fail, with a task that is seen stopped, with exit status
  42, at the third poll.\<close>

definition shim_cfg0 :: shim_Config where
  "shim_cfg0 =
     \<lparr>SocketPath = ''/tmp/firecracker.sock'', KernelImagePath = ''/var/lib/vmlinux'',
      KernelArgs = ''console=ttyS0'', RootDrive = ''/var/lib/rootfs.img'', CPUCount = 1,
      CPUTemplate = ''T2'', FirecrackerBinaryPath = ''/usr/bin/firecracker'', Debug = False\<rparr>"

definition service0 :: service where
  "service0 =
     \<lparr>service_id = ''c1'', agentStarted = False, agentClient = None, shim_config = shim_cfg0,
      machine = False, machineCID = 0, ctx_cancelled = False, exited = False, trace = [],
      logs = []\<rparr>"

definition service_created :: service where
  "service_created =
     service0\<lparr>agentStarted := True, agentClient := Some 1, machine := True, machineCID := 3\<rparr>"

definition shim_env_ok :: shim_env where
  "shim_env_ok =
     \<lparr>openFile_err = None, cid_ctxDone = ctx_never_done, cid_ioctl = ioctl_free_only_at 3,
      NewMachine_err = None, machine_Start_err = None, vsock_Dial = (\<lambda>i. Inr 1),
      StopVMM_err = None, packBundle_err = None, agent_Create = Inr 100, agent_Kill_err = None,
      agent_Shutdown_err = None, select_ctx_Done = (\<lambda>n. False),
      agent_State = (\<lambda>n. if n = 2 then Inr \<lparr>Status = StatusStopped, ExitStatus = 42\<rparr>
                           else Inr \<lparr>Status = StatusRunning, ExitStatus = 0\<rparr>),
      time_Now = (\<lambda>n. 1000 + n)\<rparr>"

definition request_xfs :: CreateTaskRequest where
  "request_xfs =
     \<lparr>request_ID = ''c1'', Bundle = ''/run/bundle'',
      Rootfs = [\<lparr>Type = ''xfs'', Source = ''/foo'', Options = []\<rparr>],
      Stdin = [], Stdout = [], Stderr = []\<rparr>"

definition request_ext4 :: CreateTaskRequest where
  "request_ext4 =
     \<lparr>request_ID = ''c1'', Bundle = ''/run/bundle'',
      Rootfs = [\<lparr>Type = ''ext4'', Source = ''/dev/mapper/p0-snap-1'', Options = []\<rparr>],
      Stdin = [], Stdout = [], Stderr = []\<rparr>"



definition shim_env_start_fails :: shim_env where
  "shim_env_start_fails = shim_env_ok\<lparr>machine_Start_err := Some (Errno 5)\<rparr>"

definition shim_env_dial_fails :: shim_env where
  "shim_env_dial_fails = shim_env_ok\<lparr>vsock_Dial := (\<lambda>i. Inl (Errno 111))\<rparr>"

definition shim_env_no_vsock_device :: shim_env where
  "shim_env_no_vsock_device = shim_env_ok\<lparr>openFile_err := Some (Errno 2)\<rparr>"

section \<open>Verification: dialling the agent\<close>

declare dialVsock_loop.simps [simp del]

lemma dialVsock_loop_fail:
  "i \<le> 5 \<Longrightarrow> dial i = Inl e \<Longrightarrow>
   dialVsock_loop dial i le d tr = dialVsock_loop dial (Suc i) (Some e) (d * 2) (tr @ [Dial i, Sleep d])"
  by (subst dialVsock_loop.simps) (simp add: retryCount_def delayMultiplier_def)

lemma dialVsock_loop_ok:
  "i \<le> 5 \<Longrightarrow> dial i = Inr c \<Longrightarrow> dialVsock_loop dial i le d tr = ((Some c, None), tr @ [Dial i])"
  by (subst dialVsock_loop.simps) (simp add: retryCount_def)

lemma dialVsock_loop_end: "5 < i \<Longrightarrow> dialVsock_loop dial i le d tr = ((None, le), tr)"
  by (subst dialVsock_loop.simps) (simp add: retryCount_def)

lemma small_numerals:
  "(1::nat) = Suc 0" "(2::nat) = Suc (Suc 0)" "(3::nat) = Suc (Suc (Suc 0))" 
  "(4::nat) = Suc (Suc (Suc (Suc 0)))" "(5::nat) = Suc (Suc (Suc (Suc (Suc 0))))"
  by simp_all

lemma dialVsock_unroll: "dialVsock dial =
  (case dial 1 of Inr c \<Rightarrow> ((Some c, None), [Dial 1]) | Inl e1 \<Rightarrow>
  (case dial 2 of Inr c \<Rightarrow> ((Some c, None), take 2 backoff_trace @ [Dial 2]) | Inl e2 \<Rightarrow>
  (case dial 3 of Inr c \<Rightarrow> ((Some c, None), take 4 backoff_trace @ [Dial 3]) | Inl e3 \<Rightarrow>
  (case dial 4 of Inr c \<Rightarrow> ((Some c, None), take 6 backoff_trace @ [Dial 4]) | Inl e4 \<Rightarrow>
  (case dial 5 of Inr c \<Rightarrow> ((Some c, None), take 8 backoff_trace @ [Dial 5]) | Inl e5 \<Rightarrow>
     ((None, Some e5), backoff_trace))))))"
  unfolding dialVsock_def small_numerals
  by (cases "dial (Suc 0)"; cases "dial (Suc (Suc 0))"; cases "dial (Suc (Suc (Suc 0)))"; 
      cases "dial (Suc (Suc (Suc (Suc 0))))"; cases "dial (Suc (Suc (Suc (Suc (Suc 0)))))";
      simp add: dialVsock_loop_fail dialVsock_loop_ok dialVsock_loop_end initialDelay_def
        Millisecond_def backoff_trace_def small_numerals(2-5))

lemma dialVsock_attempts: "length (filter is_Dial (snd (dialVsock dial))) \<le> 5"
  by (simp add: dialVsock_unroll backoff_trace_def split: sum.splits)

lemma dialVsock_first_success:
  assumes k: "1 \<le> k" "k \<le> 5" and ok: "dial k = Inr c"
    and before: "\<forall>j. 1 \<le> j \<and> j < k \<longrightarrow> isl (dial j)"
  shows "dialVsock dial = ((Some c, None), take (2 * (k - 1)) backoff_trace @ [Dial k])"
proof -
  from k have "k = 1 \<or> k = 2 \<or> k = 3 \<or> k = 4 \<or> k = 5" by arith
  moreover
  { fix j :: nat assume "1 \<le> j" "j < k"
    with before have "isl (dial j)" by blast
    then have "\<exists>e. dial j = Inl e" by (cases "dial j") auto }
  note fails = this
  ultimately show ?thesis
  proof (elim disjE)
    assume "k = 1" with ok show ?thesis by (simp add: dialVsock_unroll)
  next
    assume e: "k = 2" 
    from fails[of 1] e obtain e1 where "dial 1 = Inl e1" by auto
    with ok e show ?thesis by (simp add: dialVsock_unroll)
  next
    assume e: "k = 3" 
    from fails[of 1] e obtain e1 where "dial 1 = Inl e1" by auto
    moreover from fails[of 2] e obtain e2 where "dial 2 = Inl e2" by auto
    ultimately show ?thesis using ok e by (simp add: dialVsock_unroll)
  next
    assume e: "k = 4" 
    from fails[of 1] e obtain e1 where "dial 1 = Inl e1" by auto
    moreover from fails[of 2] e obtain e2 where "dial 2 = Inl e2" by auto
    moreover from fails[of 3] e obtain e3 where "dial 3 = Inl e3" by auto
    ultimately show ?thesis using ok e by (simp add: dialVsock_unroll)
  next
    assume e: "k = 5" 
    from fails[of 1] e obtain e1 where "dial 1 = Inl e1" by auto
    moreover from fails[of 2] e obtain e2 where "dial 2 = Inl e2" by auto
    moreover from fails[of 3] e obtain e3 where "dial 3 = Inl e3" by auto
    moreover from fails[of 4] e obtain e4 where "dial 4 = Inl e4" by auto
    ultimately show ?thesis using ok e by (simp add: dialVsock_unroll)
  qed
qed

lemma dialVsock_all_fail:
  assumes "\<forall>j. 1 \<le> j \<and> j \<le> 5 \<longrightarrow> dial j = Inl (errs j)"
  shows "dialVsock dial = ((None, Some (errs 5)), backoff_trace)"
proof -
  from assms have "dial 1 = Inl (errs 1)" "dial 2 = Inl (errs 2)" "dial 3 = Inl (errs 3)"
    "dial 4 = Inl (errs 4)" "dial 5 = Inl (errs 5)" by simp_all
  then show ?thesis by (simp add: dialVsock_unroll)
qed

text \<open>
  Claim C4. \<open>dialVsock\<close> makes at most five connection attempts. When attempt \<open>k\<close> is
  the first that connects, its connection is returned with a \<open>nil\<close> error, after the
  attempts \<open>1..k\<close> and the sleeps between them. The sleeps are 100, 200, 400, 800 and
  1600 ms, one after each failed attempt, and when all five attempts fail the error of the
  fifth is returned.
\<close>

theorem dialVsock_backoff:
  "length (filter is_Dial (snd (dialVsock dial))) \<le> 5 \<and>
   (1 \<le> k \<and> k \<le> 5 \<and> dial k = Inr c \<and> (\<forall>j. 1 \<le> j \<and> j < k \<longrightarrow> isl (dial j)) \<longrightarrow>
      dialVsock dial = ((Some c, None), take (2 * (k - 1)) backoff_trace @ [Dial k])) \<and>
   ((\<forall>j. 1 \<le> j \<and> j \<le> 5 \<longrightarrow> dial j = Inl (errs j)) \<longrightarrow>
      dialVsock dial = ((None, Some (errs 5)), backoff_trace))"
  using dialVsock_attempts dialVsock_first_success dialVsock_all_fail by blast

theorem dialVsock_backoff_witness:
  "dialVsock (\<lambda>i. if i = 3 then Inr 7 else Inl (Errno 111)) =
     ((Some 7, None), [Dial 1, Sleep 100000000, Dial 2, Sleep 200000000, Dial 3]) \<and>
   dialVsock (\<lambda>i. Inl (Errno (110 + i))) = ((None, Some (Errno 115)), backoff_trace) \<and>
   length (filter is_Dial (snd (dialVsock (\<lambda>i. Inl (Errno (110 + i)))))) \<le> 5"
  using dialVsock_backoff [of "\<lambda>i. if i = 3 then Inr 7 else Inl (Errno 111)" 3 7 "\<lambda>i. Errno 111"]
    dialVsock_backoff [of "\<lambda>i. Inl (Errno (110 + i))" 1 0 "\<lambda>i. Errno (110 + i)"]
  by (simp add: backoff_trace_def)

section \<open>Verification: the context id allocator\<close>

declare scanCID.simps [simp del]

lemma scanCID_in_use:
  assumes "contextID < maxCID" "\<not> ctxDone contextID" "ioctl contextID = EADDRINUSE"
  shows "scanCID ctxDone ioctl contextID tried =
         scanCID ctxDone ioctl (contextID + 1) (tried @ [contextID])"
  using assms by (subst scanCID.simps) (simp add: EADDRINUSE_def)

lemma scanCID_success:
  assumes "contextID < maxCID" "\<not> ctxDone contextID" "ioctl contextID = 0"
  shows "scanCID ctxDone ioctl contextID tried = ((word_of_int contextID, None), tried @ [contextID])"
  using assms by (subst scanCID.simps) simp

lemma scanCID_fatal:
  assumes "contextID < maxCID" "\<not> ctxDone contextID" "ioctl contextID \<noteq> 0"
    "ioctl contextID \<noteq> EADDRINUSE"
  shows "scanCID ctxDone ioctl contextID tried =
         ((0, Some (Errno (ioctl contextID))), tried @ [contextID])"
  using assms by (subst scanCID.simps) simp

lemma scanCID_exhausted:
  "maxCID \<le> contextID \<Longrightarrow>
   scanCID ctxDone ioctl contextID tried =
     ((0, Some (ErrorsNew ''couldn't find any available vsock context id'')), tried)"
  by (subst scanCID.simps) simp

lemma scanCID_skip:
  assumes "k \<le> m" "m \<le> maxCID"
    and "\<forall>c. k \<le> c \<and> c < m \<longrightarrow> \<not> ctxDone c \<and> ioctl c = EADDRINUSE"
  shows "scanCID ctxDone ioctl k tried = scanCID ctxDone ioctl m (tried @ [k..m - 1])"
  using assms
proof (induction m rule: int_ge_induct)
  case base
  then show ?case by simp
next
  case (step i)
  then have "scanCID ctxDone ioctl k tried = scanCID ctxDone ioctl i (tried @ [k..i - 1])"
    by simp
  also have "\<dots> = scanCID ctxDone ioctl (i + 1) ((tried @ [k..i - 1]) @ [i])"
    using step.prems step.hyps by (intro scanCID_in_use) auto
  also have "(tried @ [k..i - 1]) @ [i] = tried @ [k..i + 1 - 1]"
    using step.hyps by (simp add: upto_rec2)
  finally show ?case .
qed

lemma find_first_free:
  assumes "\<forall>c. \<not> ctxDone c" "startCID \<le> m" "m < maxCID" "ioctl m = 0"
    and "\<forall>c. startCID \<le> c \<and> c < m \<longrightarrow> ioctl c = EADDRINUSE"
  shows "findNextAvailableVsockCID None ctxDone ioctl = ((word_of_int m, None), [startCID..m])"
proof -
  have "scanCID ctxDone ioctl startCID [] = scanCID ctxDone ioctl m ([] @ [startCID..m - 1])"
    using assms by (intro scanCID_skip) auto
  also have "\<dots> = ((word_of_int m, None), ([] @ [startCID..m - 1]) @ [m])"
    using assms by (intro scanCID_success) auto
  finally show ?thesis
    using assms(2) by (simp add: findNextAvailableVsockCID_def upto_rec2)
qed

lemma find_fatal:
  assumes "\<forall>c. \<not> ctxDone c" "startCID \<le> m" "m < maxCID" "ioctl m \<noteq> 0"
    "ioctl m \<noteq> EADDRINUSE"
    and "\<forall>c. startCID \<le> c \<and> c < m \<longrightarrow> ioctl c = EADDRINUSE"
  shows "findNextAvailableVsockCID None ctxDone ioctl =
         ((0, Some (Errno (ioctl m))), [startCID..m])"
proof -
  have "scanCID ctxDone ioctl startCID [] = scanCID ctxDone ioctl m ([] @ [startCID..m - 1])"
    using assms by (intro scanCID_skip) auto
  also have "\<dots> = ((0, Some (Errno (ioctl m))), ([] @ [startCID..m - 1]) @ [m])"
    using assms by (intro scanCID_fatal) auto
  finally show ?thesis
    using assms(2) by (simp add: findNextAvailableVsockCID_def upto_rec2)
qed

lemma find_exhausted:
  assumes "\<forall>c. startCID \<le> c \<and> c < maxCID \<longrightarrow> \<not> ctxDone c \<and> ioctl c = EADDRINUSE"
  shows "findNextAvailableVsockCID None ctxDone ioctl =
         ((0, Some (ErrorsNew ''couldn't find any available vsock context id'')),
          [startCID..maxCID - 1])"
proof -
  have le: "startCID \<le> maxCID" by (simp add: startCID_def maxCID_def)
  have "scanCID ctxDone ioctl startCID [] =
        scanCID ctxDone ioctl maxCID ([] @ [startCID..maxCID - 1])"
    using assms le by (intro scanCID_skip) auto
  also have "\<dots> = ((0, Some (ErrorsNew ''couldn't find any available vsock context id'')),
                    [] @ [startCID..maxCID - 1])"
    by (intro scanCID_exhausted) simp
  finally show ?thesis
    by (simp add: findNextAvailableVsockCID_def)
qed

lemma first_not_in_use:
  assumes "k \<le> (c::int)" "ioctl c \<noteq> EADDRINUSE"
  shows "\<exists>m. k \<le> m \<and> m \<le> c \<and> ioctl m \<noteq> EADDRINUSE \<and>
             (\<forall>c'. k \<le> c' \<and> c' < m \<longrightarrow> ioctl c' = EADDRINUSE)"
proof -
  define P where "P n \<longleftrightarrow> ioctl (k + int n) \<noteq> EADDRINUSE" for n
  have "P (nat (c - k))" using assms by (simp add: P_def)
  then have L: "P (LEAST n. P n)" and M: "\<And>n. n < (LEAST n. P n) \<Longrightarrow> \<not> P n"
    and B: "(LEAST n. P n) \<le> nat (c - k)"
    by (auto intro: LeastI dest: not_less_Least simp: Least_le)
  let ?m = "k + int (LEAST n. P n)"
  have "\<forall>c'. k \<le> c' \<and> c' < ?m \<longrightarrow> ioctl c' = EADDRINUSE"
  proof (intro allI impI)
    fix c' assume c': "k \<le> c' \<and> c' < ?m"
    then have "nat (c' - k) < (LEAST n. P n)" by auto
    from M[OF this] c' show "ioctl c' = EADDRINUSE" by (simp add: P_def)
  qed
  moreover have "ioctl ?m \<noteq> EADDRINUSE" using L by (simp add: P_def)
  moreover have "?m \<le> c" using B assms(1) by auto
  ultimately show ?thesis by (intro exI[of _ ?m]) auto
qed

lemma uint_of_contextID:
  assumes "startCID \<le> m" "m < maxCID"
  shows "uint (word_of_int m :: 32 word) = m"
  using assms by (simp add: uint_word_of_int take_bit_int_eq_self startCID_def maxCID_def)

lemma find_success_is_first_free:
  assumes nd: "\<forall>c. \<not> ctxDone c"
    and res: "findNextAvailableVsockCID None ctxDone ioctl = ((cid, None), tried)"
  shows "startCID \<le> uint cid \<and> uint cid < maxCID \<and> ioctl (uint cid) = 0 \<and>
         (\<forall>c. startCID \<le> c \<and> c < uint cid \<longrightarrow> ioctl c = EADDRINUSE) \<and>
         tried = [startCID..uint cid]"
proof (cases "\<exists>c. startCID \<le> c \<and> c < maxCID \<and> ioctl c \<noteq> EADDRINUSE")
  case False
  then have "\<forall>c. startCID \<le> c \<and> c < maxCID \<longrightarrow> \<not> ctxDone c \<and> ioctl c = EADDRINUSE"
    using nd by blast
  from find_exhausted[OF this] res show ?thesis by simp
next
  case True
  then obtain c where c: "startCID \<le> c" "c < maxCID" "ioctl c \<noteq> EADDRINUSE" by blast
  from first_not_in_use[of startCID c ioctl, OF c(1,3)] obtain m where
    m: "startCID \<le> m" "m \<le> c" "ioctl m \<noteq> EADDRINUSE"
       "\<forall>c'. startCID \<le> c' \<and> c' < m \<longrightarrow> ioctl c' = EADDRINUSE"
    by blast
  have mlt: "m < maxCID" using m(2) c(2) by simp
  show ?thesis
  proof (cases "ioctl m = 0")
    case True
    from find_first_free[OF nd m(1) mlt True m(4)] res
    have cid: "cid = word_of_int m" and tr: "tried = [startCID..m]" by simp_all
    have "uint cid = m" unfolding cid using m(1) mlt by (rule uint_of_contextID)
    with True m tr mlt show ?thesis by simp
  next
    case False
    from find_fatal[OF nd m(1) mlt False m(3,4)] res show ?thesis by simp
  qed
qed

text \<open>
  Claim C3, as amended. With a context that is never cancelled, a successful run of
  \<open>findNextAvailableVsockCID\<close> returns the first context id, scanning upward from 3, on
  which the ioctl succeeds, so never 0, 1 or 2; the ioctl was issued on exactly the ids
  from 3 up to the one returned. \<open>EADDRINUSE\<close> advances the scan to the next id, any
  other ioctl error ends it with that error, and the largest context id the scan tries
  before it gives up is \<open>2^32 - 2\<close>: the loop runs while \<open>contextID < maxCID\<close>.
\<close>

theorem findNextAvailableVsockCID_scan:
  assumes "\<forall>c. \<not> ctxDone c"
  shows
    "(findNextAvailableVsockCID None ctxDone ioctl = ((cid, None), tried) \<longrightarrow>
        3 \<le> uint cid \<and> uint cid \<le> 4294967294 \<and> ioctl (uint cid) = 0 \<and>
        (\<forall>c. 3 \<le> c \<and> c < uint cid \<longrightarrow> ioctl c = EADDRINUSE) \<and>
        tried = [startCID..uint cid]) \<and>
     (3 \<le> m \<and> m \<le> 4294967294 \<and> (\<forall>c. 3 \<le> c \<and> c < m \<longrightarrow> ioctl c = EADDRINUSE) \<longrightarrow>
        (ioctl m = 0 \<longrightarrow>
           findNextAvailableVsockCID None ctxDone ioctl = ((word_of_int m, None), [startCID..m]) \<and>
           uint (word_of_int m :: 32 word) = m) \<and>
        (ioctl m \<noteq> 0 \<and> ioctl m \<noteq> EADDRINUSE \<longrightarrow>
           findNextAvailableVsockCID None ctxDone ioctl =
             ((0, Some (Errno (ioctl m))), [startCID..m]))) \<and>
     ((\<forall>c. 3 \<le> c \<and> c \<le> 4294967294 \<longrightarrow> ioctl c = EADDRINUSE) \<longrightarrow>
        findNextAvailableVsockCID None ctxDone ioctl =
          ((0, Some (ErrorsNew ''couldn't find any available vsock context id'')),
           [startCID..maxCID - 1]) \<and>
        set (snd (findNextAvailableVsockCID None ctxDone ioctl)) = {3..4294967294})"
proof (intro conjI impI)
  assume "findNextAvailableVsockCID None ctxDone ioctl = ((cid, None), tried)"
  from find_success_is_first_free[OF assms this]
  show "3 \<le> uint cid" "uint cid \<le> 4294967294" "ioctl (uint cid) = 0"
    "\<forall>c. 3 \<le> c \<and> c < uint cid \<longrightarrow> ioctl c = EADDRINUSE" "tried = [startCID..uint cid]"
    by (simp_all add: startCID_def maxCID_def)
next
  assume m: "3 \<le> m \<and> m \<le> 4294967294 \<and> (\<forall>c. 3 \<le> c \<and> c < m \<longrightarrow> ioctl c = EADDRINUSE)"
  then have b: "startCID \<le> m" "m < maxCID"
    and u: "\<forall>c. startCID \<le> c \<and> c < m \<longrightarrow> ioctl c = EADDRINUSE"
    by (simp_all add: startCID_def maxCID_def)
  { assume "ioctl m = 0"
    from find_first_free[OF assms b this u]
    show "findNextAvailableVsockCID None ctxDone ioctl = ((word_of_int m, None), [startCID..m])" .
    from b show "uint (word_of_int m :: 32 word) = m" by (rule uint_of_contextID) }
  { assume "ioctl m \<noteq> 0 \<and> ioctl m \<noteq> EADDRINUSE"
    then have "ioctl m \<noteq> 0" "ioctl m \<noteq> EADDRINUSE" by simp_all
    from find_fatal[OF assms b this u]
    show "findNextAvailableVsockCID None ctxDone ioctl =
            ((0, Some (Errno (ioctl m))), [startCID..m])" . }
next
  assume "\<forall>c. 3 \<le> c \<and> c \<le> 4294967294 \<longrightarrow> ioctl c = EADDRINUSE"
  with assms have "\<forall>c. startCID \<le> c \<and> c < maxCID \<longrightarrow> \<not> ctxDone c \<and> ioctl c = EADDRINUSE"
    by (simp add: startCID_def maxCID_def)
  from find_exhausted[OF this]
  show r: "findNextAvailableVsockCID None ctxDone ioctl =
          ((0, Some (ErrorsNew ''couldn't find any available vsock context id'')),
           [startCID..maxCID - 1])" .
  have "set [startCID..maxCID - 1] = {3..4294967294}"
    unfolding set_upto by (simp add: startCID_def maxCID_def)
  with r show "set (snd (findNextAvailableVsockCID None ctxDone ioctl)) = {3..4294967294}"
    by simp
qed

theorem findNextAvailableVsockCID_scan_witness:
  "findNextAvailableVsockCID None ctx_never_done (ioctl_free_only_at 5) = ((5, None), [3, 4, 5]) \<and>
   findNextAvailableVsockCID None ctx_never_done (\<lambda>c. if c = 4 then 22 else EADDRINUSE) =
     ((0, Some (Errno 22)), [3, 4]) \<and>
   set (snd (findNextAvailableVsockCID None ctx_never_done (\<lambda>c. EADDRINUSE))) = {3..4294967294}"
proof -
  have nd: "\<forall>c. \<not> ctx_never_done c" by (simp add: ctx_never_done_def)
  have l: "[startCID..5] = [3, 4, 5]" "[startCID..4] = [3, 4]" by (simp_all add: startCID_def)
  have "findNextAvailableVsockCID None ctx_never_done (ioctl_free_only_at 5) =
          ((word_of_int 5, None), [startCID..5])"
    using findNextAvailableVsockCID_scan [OF nd, of "ioctl_free_only_at 5" 0 "[]" 5]
    by (simp add: ioctl_free_only_at_def)
  moreover
  have "findNextAvailableVsockCID None ctx_never_done (\<lambda>c. if c = 4 then 22 else EADDRINUSE) =
          ((0, Some (Errno 22)), [startCID..4])"
    using findNextAvailableVsockCID_scan [OF nd, of "\<lambda>c. if c = 4 then 22 else EADDRINUSE" 0 "[]" 4]
    by (simp add: EADDRINUSE_def)
  moreover
  have "set (snd (findNextAvailableVsockCID None ctx_never_done (\<lambda>c. EADDRINUSE))) =
          {3..4294967294}"
    using findNextAvailableVsockCID_scan [OF nd, of "\<lambda>c. EADDRINUSE" 0 "[]" 3]
    by blast
  ultimately show ?thesis unfolding l by simp
qed

text \<open>
  Against claim C3 as stated: on a device where only context id \<open>2^32 - 1\<close> is free, the
  allocator gives up after trying the ids 3 to \<open>2^32 - 2\<close>; it never issues the ioctl on
  \<open>2^32 - 1\<close>.
\<close>

theorem findNextAvailableVsockCID_max_counterexample:
  "findNextAvailableVsockCID None ctx_never_done (ioctl_free_only_at 4294967295) =
     ((0, Some (ErrorsNew ''couldn't find any available vsock context id'')),
      [startCID..maxCID - 1]) \<and>
   maxCID - 1 = 4294967294 \<and>
   4294967295 \<notin> set (snd (findNextAvailableVsockCID None ctx_never_done (ioctl_free_only_at 4294967295)))"
proof -
  have "\<forall>c. startCID \<le> c \<and> c < maxCID \<longrightarrow>
          \<not> ctx_never_done c \<and> ioctl_free_only_at 4294967295 c = EADDRINUSE"
    by (simp add: ctx_never_done_def ioctl_free_only_at_def maxCID_def)
  from find_exhausted[OF this]
  have r: "findNextAvailableVsockCID None ctx_never_done (ioctl_free_only_at 4294967295) =
     ((0, Some (ErrorsNew ''couldn't find any available vsock context id'')),
      [startCID..maxCID - 1])" .
  have "4294967295 \<notin> set [startCID..maxCID - 1]"
    unfolding set_upto by (simp add: maxCID_def)
  with r show ?thesis by (simp add: maxCID_def)
qed

section \<open>Verification: the snapshotter\<close>

lemma config_call [simp]: "config (call ev dm) = config dm"
  by (simp add: call_def)

lemma store_call [simp]: "store (call ev dm) = store dm"
  by (simp add: call_def)

lemma calls_call [simp]: "calls (call ev dm) = calls dm @ [ev]"
  by (simp add: call_def)

lemma closeOnce_call [simp]: "closeOnce (call ev dm) = closeOnce dm"
  by (simp add: call_def)

lemma cleanupFn_call [simp]: "cleanupFn (call ev dm) = cleanupFn dm"
  by (simp add: call_def)

lemma getDeviceName_call [simp]: "getDeviceName (call ev dm) = getDeviceName dm"
  by (rule ext) (simp add: getDeviceName_def)

lemma buildMounts_call [simp]: "buildMounts (call ev dm) = buildMounts dm"
  by (rule ext) (simp add: buildMounts_def getDevicePath_def)

lemma buildMounts_eq:
  "buildMounts dm snap =
     [\<lparr>Type = ''ext4'', Source = GetFullDevicePath (PoolName (config dm) @ ''-snap-'' @ ID snap),
       Options = (if Kind snap = KindActive then [] else [''ro''])\<rparr>]"
  by (simp add: buildMounts_def getDevicePath_def getDeviceName_def fsTypeExt4_def)

lemma createSnapshot_ok:
  assumes "createSnapshot env kind key parent dm = ((mounts, None), dm1)"
  shows "\<exists>snap. store dm1 key = Some snap \<and> Kind snap = kind \<and> mounts = buildMounts dm snap"
  using assms
  by (auto simp: createSnapshot_def storage_CreateSnapshot_def mkfs_def Let_def
      split: if_splits option.splits prod.splits)

lemma withTransaction_writable_ok:
  assumes "withTransaction env True r0 fn dm = ((r, None), dm')"
  shows "\<exists>dm1. fn (call (TransactionContext True) dm) = ((r, None), dm1) \<and> store dm' = store dm1"
  using assms
  by (auto simp: withTransaction_def trans_Commit_def trans_Rollback_def Let_def ErrorOrNil_def
      Append_err_def Wrap_opt_def split: if_splits option.splits prod.splits)

lemma Prepare_ok:
  assumes "Prepare env key parent dm = ((mounts, None), dm')"
  shows "\<exists>snap. store dm' key = Some snap \<and> Kind snap = KindActive \<and> mounts = buildMounts dm snap"
proof -
  from withTransaction_writable_ok[OF assms[unfolded Prepare_def]]
  obtain dm1 where "createSnapshot env KindActive key parent (call (TransactionContext True) dm) =
      ((mounts, None), dm1)" and "store dm' = store dm1" by blast
  with createSnapshot_ok[OF this(1)] show ?thesis by simp
qed

lemma View_ok:
  assumes "View env key parent dm = ((mounts, None), dm')"
  shows "\<exists>snap. store dm' key = Some snap \<and> Kind snap = KindView \<and> mounts = buildMounts dm snap"
proof -
  from withTransaction_writable_ok[OF assms[unfolded View_def]]
  obtain dm1 where "createSnapshot env KindView key parent (call (TransactionContext True) dm) =
      ((mounts, None), dm1)" and "store dm' = store dm1" by blast
  with createSnapshot_ok[OF this(1)] show ?thesis by simp
qed

lemma Mounts_found:
  assumes "TransactionContext_err env False = None" "store dm key = Some snap"
  shows "fst (Mounts env key dm) = (buildMounts dm snap, None)"
  using assms
  by (simp add: Mounts_def withTransaction_def storage_GetSnapshot_def trans_Rollback_def Let_def
      ErrorOrNil_def Append_err_def Wrap_opt_def split: option.splits prod.splits)

lemma devmapper_Mounts_found:
  assumes "TransactionContext_err env False = None" "store dm key = Some snap"
  shows "fst (devmapper_Mounts env key dm) = (buildMounts dm snap, None)"
  using assms
  by (simp add: devmapper_Mounts_def storage_GetSnapshot_def trans_Rollback_def Let_def
      split: option.splits prod.splits)

text \<open>
  Claim C5. The mount list that \<open>buildMounts\<close> builds for a snapshot record holds exactly
  one mount: its type is \<open>ext4\<close>, its source is the device path of the canonical
  name \<open><pool>-snap-<snapshot-id>\<close>, and its options are \<open>ro\<close> if and only if the
  snapshot's kind is not Active. A
  successful \<open>Prepare\<close> returns this list for the Active record it has stored under the
  key (so without \<open>ro\<close>), a successful \<open>View\<close> returns it for the View record it has
  stored (so with \<open>ro\<close>), and \<open>Mounts\<close> (of both versions) returns it for the record
  found under the key.
\<close>

theorem buildMounts_single_ext4:
  "buildMounts dm snap =
     [\<lparr>Type = ''ext4'', Source = GetFullDevicePath (PoolName (config dm) @ ''-snap-'' @ ID snap),
       Options = (if Kind snap = KindActive then [] else [''ro''])\<rparr>] \<and>
   (Prepare env key parent dm = ((mounts, None), dm') \<longrightarrow>
      (\<exists>s. store dm' key = Some s \<and> Kind s = KindActive \<and>
           mounts = [\<lparr>Type = ''ext4'',
                      Source = GetFullDevicePath (PoolName (config dm) @ ''-snap-'' @ ID s),
                      Options = []\<rparr>])) \<and>
   (View env key parent dm = ((mounts, None), dm') \<longrightarrow>
      (\<exists>s. store dm' key = Some s \<and> Kind s = KindView \<and>
           mounts = [\<lparr>Type = ''ext4'',
                      Source = GetFullDevicePath (PoolName (config dm) @ ''-snap-'' @ ID s),
                      Options = [''ro'']\<rparr>])) \<and>
   (TransactionContext_err env False = None \<and> store dm key = Some snap \<longrightarrow>
      fst (Mounts env key dm) = (buildMounts dm snap, None) \<and>
      fst (devmapper_Mounts env key dm) = (buildMounts dm snap, None))"
proof (intro conjI impI)
  show "buildMounts dm snap =
     [\<lparr>Type = ''ext4'', Source = GetFullDevicePath (PoolName (config dm) @ ''-snap-'' @ ID snap),
       Options = (if Kind snap = KindActive then [] else [''ro''])\<rparr>]"
    by (rule buildMounts_eq)
next
  assume "Prepare env key parent dm = ((mounts, None), dm')"
  from Prepare_ok[OF this] show "\<exists>s. store dm' key = Some s \<and> Kind s = KindActive \<and>
           mounts = [\<lparr>Type = ''ext4'',
                      Source = GetFullDevicePath (PoolName (config dm) @ ''-snap-'' @ ID s),
                      Options = []\<rparr>]"
    by (auto simp: buildMounts_eq)
next
  assume "View env key parent dm = ((mounts, None), dm')"
  from View_ok[OF this] show "\<exists>s. store dm' key = Some s \<and> Kind s = KindView \<and>
           mounts = [\<lparr>Type = ''ext4'',
                      Source = GetFullDevicePath (PoolName (config dm) @ ''-snap-'' @ ID s),
                      Options = [''ro'']\<rparr>]"
    by (auto simp: buildMounts_eq)
next
  assume a: "TransactionContext_err env False = None \<and> store dm key = Some snap"
  then show "fst (Mounts env key dm) = (buildMounts dm snap, None)"
    by (simp add: Mounts_found)
  from a show "fst (devmapper_Mounts env key dm) = (buildMounts dm snap, None)"
    by (simp add: devmapper_Mounts_found)
qed

lemma Prepare_p0_eval:
  "fst (Prepare env_ok ''a'' [] (NewSnapshotter cfg_p0 Map.empty)) =
     ([\<lparr>Type = ''ext4'', Source = ''/dev/mapper/p0-snap-1'', Options = []\<rparr>], None)"
  by (simp add: Prepare_def withTransaction_def createSnapshot_def storage_CreateSnapshot_def
      mkfs_def trans_Commit_def Let_def ErrorOrNil_def Append_err_def Wrap_opt_def env_ok_def
      NewSnapshotter_def cfg_p0_def buildMounts_eq GetFullDevicePath_def)

lemma View_p0_eval:
  "fst (View env_ok ''v'' [] (NewSnapshotter cfg_p0 Map.empty)) =
     ([\<lparr>Type = ''ext4'', Source = ''/dev/mapper/p0-snap-1'', Options = [''ro'']\<rparr>], None)"
  by (simp add: View_def withTransaction_def createSnapshot_def storage_CreateSnapshot_def
      mkfs_def trans_Commit_def Let_def ErrorOrNil_def Append_err_def Wrap_opt_def env_ok_def
      NewSnapshotter_def cfg_p0_def buildMounts_eq GetFullDevicePath_def)

theorem buildMounts_single_ext4_witness:
  "fst (Prepare env_ok ''a'' [] (NewSnapshotter cfg_p0 Map.empty)) =
     ([\<lparr>Type = ''ext4'', Source = ''/dev/mapper/p0-snap-1'', Options = []\<rparr>], None) \<and>
   fst (View env_ok ''v'' [] (NewSnapshotter cfg_p0 Map.empty)) =
     ([\<lparr>Type = ''ext4'', Source = ''/dev/mapper/p0-snap-1'', Options = [''ro'']\<rparr>], None) \<and>
   fst (Mounts env_ok ''c''
          (NewSnapshotter cfg_p0 [''c'' \<mapsto> \<lparr>Kind = KindCommitted, ID = ''7'', ParentIDs = []\<rparr>])) =
     ([\<lparr>Type = ''ext4'', Source = ''/dev/mapper/p0-snap-7'', Options = [''ro'']\<rparr>], None)"
proof -
  let ?dm = "NewSnapshotter cfg_p0 Map.empty"
  let ?c = "\<lparr>Kind = KindCommitted, ID = ''7'', ParentIDs = []\<rparr>"
  obtain m1 d1 where p: "Prepare env_ok ''a'' [] ?dm = ((m1, None), d1)"
    using Prepare_p0_eval by (metis prod.collapse)
  obtain m2 d2 where v: "View env_ok ''v'' [] ?dm = ((m2, None), d2)"
    using View_p0_eval by (metis prod.collapse)
  from buildMounts_single_ext4 [of ?dm ?c env_ok "''a''" "[]" m1 d1]
  have "\<exists>s. store d1 ''a'' = Some s \<and> Kind s = KindActive \<and>
           m1 = [\<lparr>Type = ''ext4'',
                  Source = GetFullDevicePath (PoolName (config ?dm) @ ''-snap-'' @ ID s),
                  Options = []\<rparr>]"
    using p by blast
  then have "Options (hd m1) = []" by auto
  moreover have "fst (Mounts env_ok ''c'' (NewSnapshotter cfg_p0 [''c'' \<mapsto> ?c])) =
          (buildMounts (NewSnapshotter cfg_p0 [''c'' \<mapsto> ?c]) ?c, None)"
    using buildMounts_single_ext4 [of "NewSnapshotter cfg_p0 [''c'' \<mapsto> ?c]" ?c env_ok "''c''"]
    by (simp add: env_ok_def NewSnapshotter_def)
  ultimately show ?thesis
    using Prepare_p0_eval View_p0_eval
    by (simp add: buildMounts_eq NewSnapshotter_def cfg_p0_def GetFullDevicePath_def)
qed

lemma Mounts_error_nil: "snd (fst (Mounts env key dm)) = None"
  by (simp add: Mounts_def split: prod.splits)

lemma Mounts_no_transaction:
  assumes "TransactionContext_err env False \<noteq> None"
  shows "fst (Mounts env key dm) = (buildMounts dm Snapshot_zero, None)"
  using assms by (auto simp: Mounts_def withTransaction_def Let_def split: prod.splits)

lemma Mounts_not_found:
  assumes "store dm key = None"
  shows "fst (Mounts env key dm) = (buildMounts dm Snapshot_zero, None)"
  using assms
  by (auto simp: Mounts_def withTransaction_def storage_GetSnapshot_def trans_Rollback_def
      Let_def split: prod.splits option.splits)

lemma buildMounts_zero:
  "buildMounts dm Snapshot_zero =
     [\<lparr>Type = ''ext4'', Source = GetFullDevicePath (PoolName (config dm) @ ''-snap-''),
       Options = [''ro'']\<rparr>]"
  by (simp add: buildMounts_eq Snapshot_zero_def)

lemma devmapper_Mounts_error:
  "TransactionContext_err env False = Some e \<Longrightarrow> fst (devmapper_Mounts env key dm) = ([], Some e)"
  "TransactionContext_err env False = None \<Longrightarrow> store dm key = None \<Longrightarrow>
     fst (devmapper_Mounts env key dm) = ([], Some (Errdefs NotFound))"
  by (simp_all add: devmapper_Mounts_def storage_GetSnapshot_def Let_def)

text \<open>
  Claim C10. \<open>Mounts\<close> of \<open>Snapshotter\<close> (part 000) returns a \<open>nil\<close> error for every key,
  whatever the transaction and the fetch do. When the read transaction cannot be opened
  or the key has no record, it still returns the single mount built from the zero
  \<open>Snapshot\<close>: type \<open>ext4\<close>, the device path of the empty snapshot id, options \<open>ro\<close>.
\<close>

theorem Mounts_ignores_errors:
  "snd (fst (Mounts env key dm)) = None \<and>
   (TransactionContext_err env False \<noteq> None \<or> store dm key = None \<longrightarrow>
      fst (Mounts env key dm) =
        ([\<lparr>Type = ''ext4'', Source = GetFullDevicePath (PoolName (config dm) @ ''-snap-''),
           Options = [''ro'']\<rparr>], None))"
  using Mounts_error_nil Mounts_no_transaction Mounts_not_found buildMounts_zero by metis

theorem Mounts_ignores_errors_witness:
  "fst (Mounts env_no_transaction ''a'' (NewSnapshotter cfg_p0 [''a'' \<mapsto> snap_a])) =
     ([\<lparr>Type = ''ext4'', Source = ''/dev/mapper/p0-snap-'', Options = [''ro'']\<rparr>], None) \<and>
   fst (Mounts env_ok ''b'' (NewSnapshotter cfg_p0 [''a'' \<mapsto> snap_a])) =
     ([\<lparr>Type = ''ext4'', Source = ''/dev/mapper/p0-snap-'', Options = [''ro'']\<rparr>], None)"
  using Mounts_ignores_errors [of env_no_transaction "''a''" "NewSnapshotter cfg_p0 [''a'' \<mapsto> snap_a]"]
    Mounts_ignores_errors [of env_ok "''b''" "NewSnapshotter cfg_p0 [''a'' \<mapsto> snap_a]"]
  by (simp add: env_no_transaction_def env_ok_def NewSnapshotter_def cfg_p0_def
      GetFullDevicePath_def)



lemma Remove_no_record:
  assumes "TransactionContext_err env True = None" "store dm key = None"
  shows "fst (Remove env key dm) \<noteq> None"
    and "store (snd (Remove env key dm)) = store dm"
    and "calls (snd (Remove env key dm)) =
           calls dm @ [TransactionContext True, storage_Remove_call key, Rollback]"
  using assms
  by (simp_all add: Remove_def withTransaction_def removeDevice_def storage_Remove_def
      trans_Rollback_def Let_def ErrorOrNil_def Append_err_def Wrap_opt_def split: option.splits)




lemma run_cleanupFn_eq:
  "run_cleanupFn env fns result dm =
     (result @ List.map_filter (Close_err env) fns, dm\<lparr>calls := calls dm @ map Closed fns\<rparr>)"
proof (induction fns arbitrary: result dm)
  case Nil
  then show ?case by (simp add: List.map_filter_simps)
next
  case (Cons fn fns)
  show ?case
    by (cases "Close_err env fn")
       (simp_all add: Cons.IH List.map_filter_simps Append_err_def call_def)
qed

lemma Close_first:
  assumes "\<not> closeOnce dm"
  shows "Close env dm =
           (ErrorOrNil (List.map_filter (Close_err env) (cleanupFn dm)),
            dm\<lparr>closeOnce := True, calls := calls dm @ map Closed (cleanupFn dm)\<rparr>)"
  using assms by (simp add: Close_def run_cleanupFn_eq)

lemma Close_again:
  assumes "closeOnce dm"
  shows "Close env dm = (None, dm)"
  using assms by (simp add: Close_def ErrorOrNil_def)

lemma devmapper_Close_twice_calls:
  "calls (snd (devmapper_Close env (snd (devmapper_Close env dm)))) =
     calls dm @ [Closed store_Close, Closed poolDevice_Close, Closed store_Close,
                 Closed poolDevice_Close]"
  by (simp add: devmapper_Close_def Let_def)

text \<open>
  Claim C8, as amended. Calling \<open>Close\<close> twice on a \<open>Snapshotter\<close> that has not been
  closed runs every cleanup function (the MetaStore's close, then the pool's) exactly
  once, all of them during the first call and also after one of them has failed; the
  first call returns their errors aggregated (\<open>nil\<close> when there are none). The second
  call makes no call at all and returns \<open>nil\<close>, which is the first call's result only
  when no cleanup function failed.
\<close>

theorem Close_runs_cleanup_once:
  "\<not> closeOnce dm \<longrightarrow>
     fst (Close env dm) = ErrorOrNil (List.map_filter (Close_err env) (cleanupFn dm)) \<and>
     calls (snd (Close env dm)) = calls dm @ map Closed (cleanupFn dm) \<and>
     fst (Close env (snd (Close env dm))) = None \<and>
     calls (snd (Close env (snd (Close env dm)))) = calls dm @ map Closed (cleanupFn dm)"
  by (simp add: Close_first Close_again)

theorem Close_runs_cleanup_once_witness:
  "fst (Close env_store_close_fails (NewSnapshotter cfg_p0 Map.empty)) =
     Some (MultiError [Errno 5]) \<and>
   calls (snd (Close env_store_close_fails (NewSnapshotter cfg_p0 Map.empty))) =
     [Closed store_Close, Closed poolDevice_Close] \<and>
   calls (snd (Close env_store_close_fails
                 (snd (Close env_store_close_fails (NewSnapshotter cfg_p0 Map.empty))))) =
     [Closed store_Close, Closed poolDevice_Close]"
  using Close_runs_cleanup_once [of "NewSnapshotter cfg_p0 Map.empty" env_store_close_fails]
  by (simp add: NewSnapshotter_def env_store_close_fails_def env_ok_def ErrorOrNil_def
      List.map_filter_simps)

text \<open>
  Against claim C8 as stated: when the MetaStore's close fails, the first \<open>Close\<close>
  returns the aggregated error and the second returns \<open>nil\<close>.
\<close>

theorem Close_second_result_counterexample:
  "fst (Close env_store_close_fails (NewSnapshotter cfg_p0 Map.empty)) =
     Some (MultiError [Errno 5]) \<and>
   fst (Close env_store_close_fails
          (snd (Close env_store_close_fails (NewSnapshotter cfg_p0 Map.empty)))) = None"
  by (simp add: Close_def NewSnapshotter_def env_store_close_fails_def env_ok_def ErrorOrNil_def
      Append_err_def call_def)

section \<open>Verification: the task service\<close>

lemma trace_do [simp]: "trace (do e s) = trace s @ [e]"
  by (simp add: do_def)

lemma trace_do_all [simp]: "trace (do_all es s) = trace s @ es"
  by (simp add: do_all_def)

lemma trace_log_Error [simp]: "trace (log_Error msg err s) = trace s"
  by (simp add: log_Error_def)

lemma trace_cancel [simp]: "trace (cancel s) = trace s @ [CancelCtx]"
  by (simp add: cancel_def)

lemma logs_do [simp]: "logs (do e s) = logs s"
  by (simp add: do_def)

lemma logs_log_Error [simp]: "logs (log_Error msg err s) = logs s @ [Error msg err]"
  by (simp add: log_Error_def)

lemma logs_cancel [simp]: "logs (cancel s) = logs s"
  by (simp add: cancel_def)

lemma service_id_do [simp]: "service_id (do e s) = service_id s"
  by (simp add: do_def)

lemma service_id_log_Error [simp]: "service_id (log_Error msg err s) = service_id s"
  by (simp add: log_Error_def)

lemma exited_do [simp]: "exited (do e s) = exited s"
  by (simp add: do_def)

lemma exited_log_Error [simp]: "exited (log_Error msg err s) = exited s"
  by (simp add: log_Error_def)

lemma exited_cancel [simp]: "exited (cancel s) = exited s"
  by (simp add: cancel_def)

lemma ctx_cancelled_do [simp]: "ctx_cancelled (do e s) = ctx_cancelled s"
  by (simp add: do_def)

lemma ctx_cancelled_log_Error [simp]: "ctx_cancelled (log_Error msg err s) = ctx_cancelled s"
  by (simp add: log_Error_def)

lemma ctx_cancelled_cancel [simp]: "ctx_cancelled (cancel s)"
  by (simp add: cancel_def)









lemma Shutdown_trace:
  "trace (snd (Shutdown env reqID s)) =
     trace s @ [AgentShutdown reqID, StopVMM] @
       (if StopVMM_err env = None then [CancelCtx, OsExit 0] else [])"
  by (simp add: Shutdown_def stopVM_def Let_def split: option.splits)

lemma Shutdown_exited:
  "exited (snd (Shutdown env reqID s)) = (StopVMM_err env = None \<or> exited s)"
  by (auto simp: Shutdown_def stopVM_def Let_def split: option.splits)

lemma Shutdown_publishes_nothing:
  "filter is_PublishTaskExit (trace (snd (Shutdown env reqID s))) =
   filter is_PublishTaskExit (trace s)"
  by (simp add: Shutdown_trace)

lemma monitorState_stopped_now:
  assumes "\<not> select_ctx_Done env n" "agent_State env n = Inr resp" "Status resp = StatusStopped"
    "\<not> exited s"
  shows "\<exists>s'. monitorState (Suc fuel) env n reqID execID pid s = Some s' \<and>
           trace s' = trace s @ [AgentState reqID execID,
               PublishTaskExit (TaskExit (service_id s) (service_id s) pid (ExitStatus resp)
                                  (time_Now env n)),
               AgentShutdown reqID, StopVMM] @
             (if StopVMM_err env = None then [CancelCtx, OsExit 0] else [ServerClose])"
  using assms
  by (simp add: Let_def case_prod_beta Shutdown_trace Shutdown_exited)


lemma monitorState_step_error:
  assumes "\<not> select_ctx_Done env n" "agent_State env n = Inl err"
  shows "monitorState (Suc fuel) env n reqID execID pid s =
         monitorState fuel env (Suc n) reqID execID pid
           (log_Error ''error monitoring state'' err (do (AgentState reqID execID) s))"
  using assms by (simp add: Let_def)

lemma monitorState_step_running:
  assumes "\<not> select_ctx_Done env n" "agent_State env n = Inr r" "Status r \<noteq> StatusStopped"
  shows "monitorState (Suc fuel) env n reqID execID pid s =
         monitorState fuel env (Suc n) reqID execID pid (do (AgentState reqID execID) s)"
  using assms by (simp add: Let_def)

lemma monitorState_first_stopped:
  assumes "\<forall>j<k. \<not> select_ctx_Done env (n + j) \<and>
                 (\<forall>r. agent_State env (n + j) = Inr r \<longrightarrow> Status r \<noteq> StatusStopped)"
    and "\<not> select_ctx_Done env (n + k)" "agent_State env (n + k) = Inr resp"
    and "Status resp = StatusStopped" "\<not> exited s"
  shows "\<exists>s'. monitorState (Suc (k + extra)) env n reqID execID pid s = Some s' \<and>
           trace s' = trace s @ replicate (Suc k) (AgentState reqID execID) @
             [PublishTaskExit (TaskExit (service_id s) (service_id s) pid (ExitStatus resp)
                                 (time_Now env (n + k))),
              AgentShutdown reqID, StopVMM] @
             (if StopVMM_err env = None then [CancelCtx, OsExit 0] else [ServerClose])"
  using assms
proof (induction k arbitrary: n s)
  case 0
  from monitorState_stopped_now[of env n resp s extra reqID execID pid] 0
  show ?case by simp
next
  case (Suc k)
  from Suc.prems(1)[rule_format, of 0] have now: "\<not> select_ctx_Done env n"
    and run: "\<And>r. agent_State env n = Inr r \<Longrightarrow> Status r \<noteq> StatusStopped"
    by simp_all
  have later: "\<forall>j<k. \<not> select_ctx_Done env (Suc n + j) \<and>
                 (\<forall>r. agent_State env (Suc n + j) = Inr r \<longrightarrow> Status r \<noteq> StatusStopped)"
  proof (intro allI impI)
    fix j assume "j < k"
    then have "Suc j < Suc k" by simp
    from Suc.prems(1)[rule_format, OF this]
    show "\<not> select_ctx_Done env (Suc n + j) \<and>
          (\<forall>r. agent_State env (Suc n + j) = Inr r \<longrightarrow> Status r \<noteq> StatusStopped)"
      by simp
  qed
  have at: "\<not> select_ctx_Done env (Suc n + k)" "agent_State env (Suc n + k) = Inr resp"
    using Suc.prems(2,3) by simp_all
  define s1 where "s1 = (case agent_State env n of
      Inl err \<Rightarrow> log_Error ''error monitoring state'' err (do (AgentState reqID execID) s)
    | Inr r \<Rightarrow> do (AgentState reqID execID) s)"
  have step: "monitorState (Suc (Suc k + extra)) env n reqID execID pid s =
              monitorState (Suc (k + extra)) env (Suc n) reqID execID pid s1"
  proof (cases "agent_State env n")
    case (Inl err)
    from monitorState_step_error[OF now Inl] show ?thesis by (simp add: s1_def Inl)
  next
    case (Inr r)
    from monitorState_step_running[OF now Inr run[OF Inr]] show ?thesis by (simp add: s1_def Inr)
  qed
  have s1: "trace s1 = trace s @ [AgentState reqID execID]" "service_id s1 = service_id s"
    "\<not> exited s1"
    using Suc.prems(5) by (simp_all add: s1_def split: sum.splits)
  from Suc.IH[OF later at Suc.prems(4) s1(3)]
  obtain s' where m: "monitorState (Suc (k + extra)) env (Suc n) reqID execID pid s1 = Some s'"
    and t: "trace s' = trace s1 @ replicate (Suc k) (AgentState reqID execID) @
             [PublishTaskExit (TaskExit (service_id s1) (service_id s1) pid (ExitStatus resp)
                                 (time_Now env (Suc n + k))),
              AgentShutdown reqID, StopVMM] @
             (if StopVMM_err env = None then [CancelCtx, OsExit 0] else [ServerClose])"
    by blast
  from m step have "monitorState (Suc (Suc k + extra)) env n reqID execID pid s = Some s'"
    by simp
  moreover from t s1 have "trace s' = trace s @ replicate (Suc (Suc k)) (AgentState reqID execID) @
             [PublishTaskExit (TaskExit (service_id s) (service_id s) pid (ExitStatus resp)
                                 (time_Now env (n + Suc k))),
              AgentShutdown reqID, StopVMM] @
             (if StopVMM_err env = None then [CancelCtx, OsExit 0] else [ServerClose])"
    by simp
  ultimately show ?case by blast
qed


lemma monitorState_step_stopped:
  assumes "\<not> select_ctx_Done env n" "agent_State env n = Inr r" "Status r = StatusStopped"
  shows "\<exists>s'. monitorState (Suc fuel) env n reqID execID pid s = Some s' \<and>
          filter is_PublishTaskExit (trace s') =
          filter is_PublishTaskExit (trace s) @
            [PublishTaskExit (TaskExit (service_id s) (service_id s) pid (ExitStatus r)
                                (time_Now env n))]"
  using assms by (simp add: Let_def case_prod_beta Shutdown_trace)

lemma monitorState_publishes_at_most_once:
  assumes "monitorState fuel env n reqID execID pid s = Some s'"
  shows "length (filter is_PublishTaskExit (trace s')) \<le>
         Suc (length (filter is_PublishTaskExit (trace s)))"
  using assms
proof (induction fuel arbitrary: n s)
  case 0
  then show ?case by simp
next
  case (Suc fuel)
  show ?case
  proof (cases "select_ctx_Done env n")
    case True
    with Suc.prems show ?thesis by simp
  next
    case False
    show ?thesis
    proof (cases "agent_State env n")
      case (Inl err)
      from Suc.prems monitorState_step_error[OF False Inl]
      have "monitorState fuel env (Suc n) reqID execID pid
              (log_Error ''error monitoring state'' err (do (AgentState reqID execID) s)) = Some s'"
        by simp
      from Suc.IH[OF this] show ?thesis by simp
    next
      case (Inr r)
      show ?thesis
      proof (cases "Status r = StatusStopped")
        case True
        from monitorState_step_stopped[OF False Inr True, of fuel reqID execID pid s] Suc.prems
        show ?thesis by auto
      next
        case ns: False
        from Suc.prems monitorState_step_running[OF False Inr ns]
        have "monitorState fuel env (Suc n) reqID execID pid (do (AgentState reqID execID) s) = Some s'"
          by simp
        from Suc.IH[OF this] show ?thesis by simp
      qed
    qed
  qed
qed

text \<open>
  Claim C9. In a run of the state monitor, let the \<open>k\<close>-th turn of the loop be the first
  whose \<open>State\<close> poll reports \<open>Stopped\<close>, the context not being done before. Then
  the monitor returns: after its \<open>k + 1\<close> polls it publishes one \<open>TaskExit\<close> event
  carrying the shim's container id, the pid, the exit status of that poll and the time
  of that turn, then calls \<open>Shutdown\<close> (agent Shutdown, VM stop, and when the VM stop
  succeeded the context cancel and the exit of the process; otherwise the server is
  closed), and makes no further turn. No run of the monitor, however it ends, publishes
  more than one \<open>TaskExit\<close>, and \<open>Shutdown\<close> itself publishes none.
\<close>

theorem monitorState_publishes_TaskExit_once:
  "((\<forall>j<k. \<not> select_ctx_Done env j \<and>
            (\<forall>r. agent_State env j = Inr r \<longrightarrow> Status r \<noteq> StatusStopped)) \<and>
    \<not> select_ctx_Done env k \<and> agent_State env k = Inr resp \<and> Status resp = StatusStopped \<and>
    \<not> exited s \<longrightarrow>
      (\<exists>s'. monitorState (Suc (k + extra)) env 0 reqID execID pid s = Some s' \<and>
            trace s' = trace s @ replicate (Suc k) (AgentState reqID execID) @
              [PublishTaskExit (TaskExit (service_id s) (service_id s) pid (ExitStatus resp)
                                  (time_Now env k)),
               AgentShutdown reqID, StopVMM] @
              (if StopVMM_err env = None then [CancelCtx, OsExit 0] else [ServerClose]) \<and>
            filter is_PublishTaskExit (trace s') =
              filter is_PublishTaskExit (trace s) @
                [PublishTaskExit (TaskExit (service_id s) (service_id s) pid (ExitStatus resp)
                                    (time_Now env k))])) \<and>
   (monitorState fuel env n reqID execID pid s = Some t \<longrightarrow>
      length (filter is_PublishTaskExit (trace t)) \<le>
      Suc (length (filter is_PublishTaskExit (trace s)))) \<and>
   filter is_PublishTaskExit (trace (snd (Shutdown env reqID s))) =
     filter is_PublishTaskExit (trace s)"
proof (intro conjI impI)
  assume a: "(\<forall>j<k. \<not> select_ctx_Done env j \<and>
            (\<forall>r. agent_State env j = Inr r \<longrightarrow> Status r \<noteq> StatusStopped)) \<and>
    \<not> select_ctx_Done env k \<and> agent_State env k = Inr resp \<and> Status resp = StatusStopped \<and>
    \<not> exited s"
  then have "\<forall>j<k. \<not> select_ctx_Done env (0 + j) \<and>
            (\<forall>r. agent_State env (0 + j) = Inr r \<longrightarrow> Status r \<noteq> StatusStopped)"
    and "\<not> select_ctx_Done env (0 + k)" "agent_State env (0 + k) = Inr resp"
    and "Status resp = StatusStopped" "\<not> exited s"
    by simp_all
  from monitorState_first_stopped[OF this, of extra reqID execID pid]
  obtain s' where m: "monitorState (Suc (k + extra)) env 0 reqID execID pid s = Some s'"
    and t: "trace s' = trace s @ replicate (Suc k) (AgentState reqID execID) @
              [PublishTaskExit (TaskExit (service_id s) (service_id s) pid (ExitStatus resp)
                                  (time_Now env k)),
               AgentShutdown reqID, StopVMM] @
              (if StopVMM_err env = None then [CancelCtx, OsExit 0] else [ServerClose])"
    by auto
  have "filter is_PublishTaskExit (trace s') =
          filter is_PublishTaskExit (trace s) @
            [PublishTaskExit (TaskExit (service_id s) (service_id s) pid (ExitStatus resp)
                                (time_Now env k))]"
    unfolding t by simp
  with m t show "\<exists>s'. monitorState (Suc (k + extra)) env 0 reqID execID pid s = Some s' \<and>
            trace s' = trace s @ replicate (Suc k) (AgentState reqID execID) @
              [PublishTaskExit (TaskExit (service_id s) (service_id s) pid (ExitStatus resp)
                                  (time_Now env k)),
               AgentShutdown reqID, StopVMM] @
              (if StopVMM_err env = None then [CancelCtx, OsExit 0] else [ServerClose]) \<and>
            filter is_PublishTaskExit (trace s') =
              filter is_PublishTaskExit (trace s) @
                [PublishTaskExit (TaskExit (service_id s) (service_id s) pid (ExitStatus resp)
                                    (time_Now env k))]"
    by blast
next
  assume "monitorState fuel env n reqID execID pid s = Some t"
  then show "length (filter is_PublishTaskExit (trace t)) \<le>
      Suc (length (filter is_PublishTaskExit (trace s)))"
    by (rule monitorState_publishes_at_most_once)
next
  show "filter is_PublishTaskExit (trace (snd (Shutdown env reqID s))) =
     filter is_PublishTaskExit (trace s)"
    by (rule Shutdown_publishes_nothing)
qed

theorem monitorState_publishes_TaskExit_once_witness:
  "map_option trace (monitorState 3 shim_env_ok 0 ''c1'' [] 100 service_created) =
     Some [AgentState ''c1'' [], AgentState ''c1'' [], AgentState ''c1'' [],
           PublishTaskExit (TaskExit ''c1'' ''c1'' 100 42 1002),
           AgentShutdown ''c1'', StopVMM, CancelCtx, OsExit 0]"
proof -
  have h: "(\<forall>j<2. \<not> select_ctx_Done shim_env_ok j \<and>
            (\<forall>r. agent_State shim_env_ok j = Inr r \<longrightarrow> Status r \<noteq> StatusStopped)) \<and>
    \<not> select_ctx_Done shim_env_ok 2 \<and>
    agent_State shim_env_ok 2 = Inr \<lparr>Status = StatusStopped, ExitStatus = 42\<rparr> \<and>
    Status \<lparr>Status = StatusStopped, ExitStatus = 42\<rparr> = StatusStopped \<and>
    \<not> exited service_created"
    by (auto simp: shim_env_ok_def service_created_def service0_def)
  from monitorState_publishes_TaskExit_once
         [of 2 shim_env_ok "\<lparr>Status = StatusStopped, ExitStatus = 42\<rparr>" service_created 0
             "''c1''" "[]" 100 0 0 service_created, THEN conjunct1, rule_format, OF h]
  obtain s' where "monitorState (Suc (2 + 0)) shim_env_ok 0 ''c1'' [] 100 service_created = Some s'"
    and "trace s' = trace service_created @ replicate (Suc 2) (AgentState ''c1'' []) @
              [PublishTaskExit (TaskExit (service_id service_created) (service_id service_created)
                                  100 (ExitStatus \<lparr>Status = StatusStopped, ExitStatus = 42\<rparr>)
                                  (time_Now shim_env_ok 2)),
               AgentShutdown ''c1'', StopVMM] @
              (if StopVMM_err shim_env_ok = None then [CancelCtx, OsExit 0] else [ServerClose])"
    by blast
  then show ?thesis
    by (simp add: shim_env_ok_def service_created_def service0_def numeral_3_eq_3
        del: monitorState.simps)
qed

declare Itoa.simps [simp del]

lemma Itoa_digit: "n < 10 \<Longrightarrow> Itoa n = [digit_char n]"
  by (subst Itoa.simps) simp

lemma Itoa_1_2: "Itoa 1 = ''1''" "Itoa 2 = ''2''" "Itoa (Suc 0) = ''1''"
  by (simp_all add: Itoa_digit digit_char_def)

lemma attach_Rootfs_unsupported:
  assumes "\<exists>mnt\<in>set mnts. Type mnt \<noteq> ''ext4''"
  shows "attach_Rootfs mnts i drives =
           Inl (ErrorsNew (''unsupported mount type '' @
                  quoted (Type (hd (filter (\<lambda>mnt. Type mnt \<noteq> ''ext4'') mnts))) @
                  '', expected '' @ quoted ''ext4''))"
  using assms
  by (induction mnts arbitrary: i drives) (auto simp: supportedMountFSType_def)

lemma not_IsInvalidArgument_ErrorsNew: "\<not> IsInvalidArgument (ErrorsNew msg)"
  by (simp add: IsInvalidArgument_def)

lemma startVM_cid_error:
  assumes "snd (fst (findNextAvailableVsockCID (openFile_err env) (cid_ctxDone env) (cid_ioctl env))) = Some e"
  shows "fst (startVM env request s) = (None, Some e)"
    and "trace (snd (startVM env request s)) =
           trace s @ map SetGuestCID
             (snd (findNextAvailableVsockCID (openFile_err env) (cid_ctxDone env) (cid_ioctl env)))"
  using assms by (simp_all add: startVM_def Let_def case_prod_beta)

lemma startVM_unsupported:
  assumes "snd (fst (findNextAvailableVsockCID (openFile_err env) (cid_ctxDone env) (cid_ioctl env))) = None"
    and "\<exists>mnt\<in>set (Rootfs request). Type mnt \<noteq> ''ext4''"
  shows "fst (startVM env request s) =
           (None, Some (ErrorsNew (''unsupported mount type '' @
                  quoted (Type (hd (filter (\<lambda>mnt. Type mnt \<noteq> ''ext4'') (Rootfs request)))) @
                  '', expected '' @ quoted ''ext4'')))"
    and "trace (snd (startVM env request s)) =
           trace s @ map SetGuestCID
             (snd (findNextAvailableVsockCID (openFile_err env) (cid_ctxDone env) (cid_ioctl env)))"
  using assms by (simp_all add: startVM_def Let_def case_prod_beta attach_Rootfs_unsupported)

lemma Create_startVM_error:
  assumes "\<not> agentStarted s" "snd (fst (startVM env request s)) = Some e"
  shows "fst (Create env request s) = (None, Some e)"
    and "trace (snd (Create env request s)) = trace (snd (startVM env request s))"
  using assms by (simp_all add: Create_def Let_def case_prod_beta)

lemma find_shim_env_ok:
  "findNextAvailableVsockCID None ctx_never_done (ioctl_free_only_at 3) = ((3, None), [3])"
proof -
  have "findNextAvailableVsockCID None ctx_never_done (ioctl_free_only_at 3) =
          ((word_of_int 3, None), [startCID..3])"
    by (rule find_first_free)
       (simp_all add: ctx_never_done_def ioctl_free_only_at_def startCID_def maxCID_def)
  then show ?thesis by (simp add: startCID_def)
qed

text \<open>
  Claim C6, as amended. When the \<open>Rootfs\<close> list of the request holds a mount whose type
  is not \<open>ext4\<close>, \<open>startVM\<close> fails before \<open>firecracker.NewMachine\<close> and before the
  machine's \<open>Start\<close>: the only calls it has made are the ioctls of the context id
  allocator. When the allocator has failed, its error is returned; otherwise the error
  is the one made by \<open>errors.Errorf\<close>, with the message
  \<open>unsupported mount type '<type>', expected 'ext4'\<close> for the first such mount, an error
  that carries no kind. \<open>Create\<close> on a shim whose VM has not been started returns
  that error, having made no other call.
\<close>

theorem startVM_rejects_unsupported_mount:
  "(\<exists>mnt\<in>set (Rootfs request). Type mnt \<noteq> ''ext4'') \<longrightarrow>
     fst (startVM env request s) =
       (None,
        case snd (fst (findNextAvailableVsockCID (openFile_err env) (cid_ctxDone env)
                         (cid_ioctl env))) of
          Some e \<Rightarrow> Some e
        | None \<Rightarrow>
            Some (ErrorsNew (''unsupported mount type '' @
                    quoted (Type (hd (filter (\<lambda>mnt. Type mnt \<noteq> ''ext4'') (Rootfs request)))) @
                    '', expected '' @ quoted ''ext4''))) \<and>
     trace (snd (startVM env request s)) =
       trace s @ map SetGuestCID
         (snd (findNextAvailableVsockCID (openFile_err env) (cid_ctxDone env) (cid_ioctl env))) \<and>
     MachineStart \<notin> set (trace (snd (startVM env request s))) - set (trace s) \<and>
     NewMachine cid drives \<notin> set (trace (snd (startVM env request s))) - set (trace s) \<and>
     (\<not> agentStarted s \<longrightarrow>
        fst (Create env request s) = (None, snd (fst (startVM env request s))) \<and>
        trace (snd (Create env request s)) = trace (snd (startVM env request s)))"
proof (intro impI)
  assume bad: "\<exists>mnt\<in>set (Rootfs request). Type mnt \<noteq> ''ext4''"
  let ?find = "findNextAvailableVsockCID (openFile_err env) (cid_ctxDone env) (cid_ioctl env)"
  let ?msg = "ErrorsNew (''unsupported mount type '' @
                    quoted (Type (hd (filter (\<lambda>mnt. Type mnt \<noteq> ''ext4'') (Rootfs request)))) @
                    '', expected '' @ quoted ''ext4'')"
  have rt: "fst (startVM env request s) =
             (None, case snd (fst ?find) of Some e \<Rightarrow> Some e | None \<Rightarrow> Some ?msg) \<and>
           trace (snd (startVM env request s)) = trace s @ map SetGuestCID (snd ?find)"
  proof (cases "snd (fst ?find)")
    case None
    from startVM_unsupported[OF None bad, of s] None show ?thesis by simp
  next
    case (Some e)
    from startVM_cid_error[OF Some, of request s] Some show ?thesis by simp
  qed
  then have r: "fst (startVM env request s) =
             (None, case snd (fst ?find) of Some e \<Rightarrow> Some e | None \<Rightarrow> Some ?msg)"
    and t: "trace (snd (startVM env request s)) = trace s @ map SetGuestCID (snd ?find)"
    by simp_all
  from r obtain e where e: "snd (fst (startVM env request s)) = Some e"
    by (cases "snd (fst ?find)") simp_all
  have c: "\<not> agentStarted s \<longrightarrow>
        fst (Create env request s) = (None, snd (fst (startVM env request s))) \<and>
        trace (snd (Create env request s)) = trace (snd (startVM env request s))"
    using Create_startVM_error[OF _ e] e by simp
  have m: "MachineStart \<notin> set (trace (snd (startVM env request s))) - set (trace s)"
    "NewMachine cid drives \<notin> set (trace (snd (startVM env request s))) - set (trace s)"
    unfolding t by auto
  from r t m c show "fst (startVM env request s) =
       (None, case snd (fst ?find) of Some e \<Rightarrow> Some e | None \<Rightarrow> Some ?msg) \<and>
     trace (snd (startVM env request s)) = trace s @ map SetGuestCID (snd ?find) \<and>
     MachineStart \<notin> set (trace (snd (startVM env request s))) - set (trace s) \<and>
     NewMachine cid drives \<notin> set (trace (snd (startVM env request s))) - set (trace s) \<and>
     (\<not> agentStarted s \<longrightarrow>
        fst (Create env request s) = (None, snd (fst (startVM env request s))) \<and>
        trace (snd (Create env request s)) = trace (snd (startVM env request s)))"
    by blast
qed

theorem startVM_rejects_unsupported_mount_witness:
  "fst (startVM shim_env_ok request_xfs service0) =
     (None, Some (ErrorsNew (''unsupported mount type '' @ quoted ''xfs'' @ '', expected '' @
                             quoted ''ext4''))) \<and>
   trace (snd (startVM shim_env_ok request_xfs service0)) = [SetGuestCID 3] \<and>
   fst (Create shim_env_ok request_xfs service0) =
     (None, Some (ErrorsNew (''unsupported mount type '' @ quoted ''xfs'' @ '', expected '' @
                             quoted ''ext4''))) \<and>
   trace (snd (Create shim_env_ok request_xfs service0)) = [SetGuestCID 3]"
  using startVM_rejects_unsupported_mount [of request_xfs shim_env_ok service0]
  by (simp add: shim_env_ok_def request_xfs_def service0_def find_shim_env_ok)

text \<open>
  Against claim C6 as stated, at the request of scenario S4: the error returned is the
  plain error of \<open>errors.Errorf\<close>, which \<open>errdefs.IsInvalidArgument\<close> does not
  recognise; and when the vsock device cannot be opened, the error returned is the
  allocator's, not one about the mount.
\<close>

theorem startVM_error_kind_counterexample:
  "snd (fst (startVM shim_env_ok request_xfs service0)) =
     Some (ErrorsNew (''unsupported mount type '' @ quoted ''xfs'' @ '', expected '' @
                      quoted ''ext4'')) \<and>
   \<not> IsInvalidArgument (ErrorsNew (''unsupported mount type '' @ quoted ''xfs'' @
                                   '', expected '' @ quoted ''ext4'')) \<and>
   snd (fst (startVM shim_env_no_vsock_device request_xfs service0)) =
     Some (Wrap (Errno 2) ''failed to open vsock device'')"
proof (intro conjI)
  have "snd (fst (findNextAvailableVsockCID (openFile_err shim_env_ok) (cid_ctxDone shim_env_ok)
                    (cid_ioctl shim_env_ok))) = None"
    by (simp add: shim_env_ok_def find_shim_env_ok)
  from startVM_unsupported(1)[OF this, of request_xfs service0]
  show "snd (fst (startVM shim_env_ok request_xfs service0)) =
     Some (ErrorsNew (''unsupported mount type '' @ quoted ''xfs'' @ '', expected '' @
                      quoted ''ext4''))"
    by (simp add: request_xfs_def)
next
  show "\<not> IsInvalidArgument (ErrorsNew (''unsupported mount type '' @ quoted ''xfs'' @
                                   '', expected '' @ quoted ''ext4''))"
    by (rule not_IsInvalidArgument_ErrorsNew)
next
  have "snd (fst (findNextAvailableVsockCID (openFile_err shim_env_no_vsock_device)
                    (cid_ctxDone shim_env_no_vsock_device) (cid_ioctl shim_env_no_vsock_device))) =
          Some (Wrap (Errno 2) ''failed to open vsock device'')"
    by (simp add: shim_env_no_vsock_device_def findNextAvailableVsockCID_def)
  from startVM_cid_error(1)[OF this, of request_xfs service0]
  show "snd (fst (startVM shim_env_no_vsock_device request_xfs service0)) =
     Some (Wrap (Errno 2) ''failed to open vsock device'')"
    by simp
qed

lemma Itoa_Suc_Suc_0: "Itoa (Suc (Suc 0)) = ''2''"
  using Itoa_1_2(2) by (simp add: numeral_2_eq_2)

lemma startVM_Start_failure:
  assumes "findNextAvailableVsockCID (openFile_err env) (cid_ctxDone env) (cid_ioctl env) =
             ((cid, None), tried)"
    and "attach_Rootfs (Rootfs request) 0
           [\<lparr>DriveID = ''1'', PathOnHost = RootDrive (shim_config s), IsRootDevice = True,
             IsReadOnly = False\<rparr>] = Inr drives"
    and "NewMachine_err env = None" "machine_Start_err env = Some e"
  shows "fst (startVM env request s) = (None, Some e)"
    and "trace (snd (startVM env request s)) =
           trace s @ map SetGuestCID tried @ [NewMachine cid drives, MachineStart, VmmCancel]"
  using assms by (simp_all add: startVM_def Let_def Itoa_1_2)

lemma startVM_dial_failure:
  assumes "findNextAvailableVsockCID (openFile_err env) (cid_ctxDone env) (cid_ioctl env) =
             ((cid, None), tried)"
    and "attach_Rootfs (Rootfs request) 0
           [\<lparr>DriveID = ''1'', PathOnHost = RootDrive (shim_config s), IsRootDevice = True,
             IsReadOnly = False\<rparr>] = Inr drives"
    and "NewMachine_err env = None" "machine_Start_err env = None"
    and "dialVsock (vsock_Dial env) = ((c, Some e), dialled)"
  shows "fst (startVM env request s) = (None, Some e)"
    and "trace (snd (startVM env request s)) =
           trace s @ map SetGuestCID tried @ [NewMachine cid drives, MachineStart] @
           map (VsockDial cid defaultVsockPort) dialled @ [StopVMM, VmmCancel]"
  using assms by (simp_all add: startVM_def stopVM_def Let_def Itoa_1_2)

lemma attach_Rootfs_request_ext4:
  "attach_Rootfs (Rootfs request_ext4) 0
     [\<lparr>DriveID = ''1'', PathOnHost = RootDrive (shim_config service0), IsRootDevice = True,
       IsReadOnly = False\<rparr>] =
   Inr [\<lparr>DriveID = ''1'', PathOnHost = ''/var/lib/rootfs.img'', IsRootDevice = True,
          IsReadOnly = False\<rparr>,
        \<lparr>DriveID = ''2'', PathOnHost = ''/dev/mapper/p0-snap-1'', IsRootDevice = False,
          IsReadOnly = False\<rparr>]"
  by (simp add: request_ext4_def service0_def shim_cfg0_def supportedMountFSType_def Itoa_1_2
      Itoa_Suc_Suc_0)

text \<open>
  Claim C7, on the code. \<open>startVM\<close> at a request with an \<open>ext4\<close> root filesystem, with
  a hypervisor whose \<open>Start\<close> fails: the error is returned after the deferred
  \<open>vmmCancel\<close> alone; \<open>StopVMM\<close>, which the next error path (the failed vsock dial)
  calls before it returns, is not called.
\<close>

theorem startVM_Start_failure_without_StopVMM:
  "fst (startVM shim_env_start_fails request_ext4 service0) = (None, Some (Errno 5)) \<and>
   trace (snd (startVM shim_env_start_fails request_ext4 service0)) =
     [SetGuestCID 3,
      NewMachine 3
        [\<lparr>DriveID = ''1'', PathOnHost = ''/var/lib/rootfs.img'', IsRootDevice = True,
           IsReadOnly = False\<rparr>,
         \<lparr>DriveID = ''2'', PathOnHost = ''/dev/mapper/p0-snap-1'', IsRootDevice = False,
           IsReadOnly = False\<rparr>],
      MachineStart, VmmCancel] \<and>
   StopVMM \<notin> set (trace (snd (startVM shim_env_start_fails request_ext4 service0))) \<and>
   fst (startVM shim_env_dial_fails request_ext4 service0) = (None, Some (Errno 111)) \<and>
   trace (snd (startVM shim_env_dial_fails request_ext4 service0)) =
     [SetGuestCID 3,
      NewMachine 3
        [\<lparr>DriveID = ''1'', PathOnHost = ''/var/lib/rootfs.img'', IsRootDevice = True,
           IsReadOnly = False\<rparr>,
         \<lparr>DriveID = ''2'', PathOnHost = ''/dev/mapper/p0-snap-1'', IsRootDevice = False,
           IsReadOnly = False\<rparr>],
      MachineStart] @
     map (VsockDial 3 10789) backoff_trace @ [StopVMM, VmmCancel]"
proof -
  have f1: "findNextAvailableVsockCID (openFile_err shim_env_start_fails)
              (cid_ctxDone shim_env_start_fails) (cid_ioctl shim_env_start_fails) = ((3, None), [3])"
    by (simp add: shim_env_start_fails_def shim_env_ok_def find_shim_env_ok)
  have f2: "findNextAvailableVsockCID (openFile_err shim_env_dial_fails)
              (cid_ctxDone shim_env_dial_fails) (cid_ioctl shim_env_dial_fails) = ((3, None), [3])"
    by (simp add: shim_env_dial_fails_def shim_env_ok_def find_shim_env_ok)
  have d: "dialVsock (vsock_Dial shim_env_dial_fails) = ((None, Some (Errno 111)), backoff_trace)"
    using dialVsock_all_fail[of "\<lambda>i. Inl (Errno 111)" "\<lambda>i. Errno 111"]
    by (simp add: shim_env_dial_fails_def)
  have t1: "trace (snd (startVM shim_env_start_fails request_ext4 service0)) =
     [SetGuestCID 3,
      NewMachine 3
        [\<lparr>DriveID = ''1'', PathOnHost = ''/var/lib/rootfs.img'', IsRootDevice = True,
           IsReadOnly = False\<rparr>,
         \<lparr>DriveID = ''2'', PathOnHost = ''/dev/mapper/p0-snap-1'', IsRootDevice = False,
           IsReadOnly = False\<rparr>],
      MachineStart, VmmCancel]"
    using startVM_Start_failure(2)[OF f1 attach_Rootfs_request_ext4, of "Errno 5"]
    by (simp add: shim_env_start_fails_def shim_env_ok_def service0_def)
  have r1: "fst (startVM shim_env_start_fails request_ext4 service0) = (None, Some (Errno 5))"
    using startVM_Start_failure(1)[OF f1 attach_Rootfs_request_ext4, of "Errno 5"]
    by (simp add: shim_env_start_fails_def shim_env_ok_def)
  have r2: "fst (startVM shim_env_dial_fails request_ext4 service0) = (None, Some (Errno 111))"
    using startVM_dial_failure(1)[OF f2 attach_Rootfs_request_ext4 _ _ d]
    by (simp add: shim_env_dial_fails_def shim_env_ok_def)
  have t2: "trace (snd (startVM shim_env_dial_fails request_ext4 service0)) =
     [SetGuestCID 3,
      NewMachine 3
        [\<lparr>DriveID = ''1'', PathOnHost = ''/var/lib/rootfs.img'', IsRootDevice = True,
           IsReadOnly = False\<rparr>,
         \<lparr>DriveID = ''2'', PathOnHost = ''/dev/mapper/p0-snap-1'', IsRootDevice = False,
           IsReadOnly = False\<rparr>],
      MachineStart] @
     map (VsockDial 3 10789) backoff_trace @ [StopVMM, VmmCancel]"
    using startVM_dial_failure(2)[OF f2 attach_Rootfs_request_ext4 _ _ d]
    by (simp add: shim_env_dial_fails_def shim_env_ok_def service0_def defaultVsockPort_def)
  have "StopVMM \<notin> set (trace (snd (startVM shim_env_start_fails request_ext4 service0)))"
    unfolding t1 by simp
  with r1 t1 r2 t2 show ?thesis by blast
qed

end
